theory Spec2Isabelle
  imports Main "HOL-Library.AList"
begin

section \<open>The relational store behind the repositories\<close>

text \<open>
  Both repositories (\<^verbatim>\<open>ee/query-service/pipelines/db.go\<close> and the ingestion-rule
  repository) wrap an \<^verbatim>\<open>*sqlx.DB\<close> and issue one parameterised SQL statement per
  method. The statements are kept as data (table, columns, placeholders), so that each
  one can be compared with the query text of the source, and a small interpreter gives
  them the meaning SQLite gives them.

  A stored value is dynamically typed, as in SQLite. A row maps column names to values;
  a table carries the column defaults of its schema (the schema is created by
  \<^verbatim>\<open>sqlite.InitDB\<close>, outside the given files) and its rows in insertion order.
  No uniqueness constraint is modelled: the source itself handles several rows with one
  id. The field \<open>fault\<close> is the state of the connection: when it holds an error, every
  statement fails with it and writes nothing.
\<close>

datatype sqlval = SNull | SInt int | SText string | SBool bool | STime nat

type_synonym row = "(string \<times> sqlval) list"

record sql_table =
  schema_defaults :: row
  stored_rows :: "row list"

record sqlx_DB =
  tables :: "(string \<times> sql_table) list"
  fault :: "string option"

text \<open>A column a row does not hold reads as NULL.\<close>

definition col :: "row \<Rightarrow> string \<Rightarrow> sqlval" where
  "col r c = (case map_of r c of None \<Rightarrow> SNull | Some v \<Rightarrow> v)"

text \<open>
  SQL equality: a comparison with NULL is never true. Values of different storage
  classes are different (the conversion of numeric-looking text under a numeric column
  affinity is not modelled).
\<close>

definition sql_eq :: "sqlval \<Rightarrow> sqlval \<Rightarrow> bool" where
  "sql_eq a b = (a \<noteq> SNull \<and> b \<noteq> SNull \<and> a = b)"

text \<open>
  The right-hand side of a comparison is a column or a placeholder; \<open>Param n\<close> is the
  source's \<^verbatim>\<open>$n\<close>, bound to the \<open>n\<close>-th argument of the call (counted from 1).
\<close>

datatype operand = Col string | Param nat

datatype cond = Eq string operand

datatype stmt =
    INSERT string "string list" "nat list"
  | UPDATE string "(string \<times> nat) list" "cond list"
  | DELETE string "cond list"

datatype query = SELECT "string list" "(string \<times> string) list" "cond list"

fun eval_operand :: "sqlval list \<Rightarrow> row \<Rightarrow> operand \<Rightarrow> sqlval" where
  "eval_operand args r (Col c) = col r c"
| "eval_operand args r (Param n) = args ! (n - 1)"

fun holds :: "sqlval list \<Rightarrow> row \<Rightarrow> cond \<Rightarrow> bool" where
  "holds args r (Eq c x) = sql_eq (col r c) (eval_operand args r x)"

definition matches :: "sqlval list \<Rightarrow> cond list \<Rightarrow> row \<Rightarrow> bool" where
  "matches args cs r = list_all (holds args r) cs"

fun assign :: "sqlval list \<Rightarrow> (string \<times> nat) list \<Rightarrow> row \<Rightarrow> row" where
  "assign args [] r = r"
| "assign args ((c, n) # as) r = assign args as (AList.update c (args ! (n - 1)) r)"

text \<open>
  The number of arguments a statement needs is its highest placeholder. The SQLite
  driver refuses a call with fewer arguments and ignores the arguments beyond it, so
  the reads \<open>args ! (n - 1)\<close> above stay in range.
\<close>

fun cond_params :: "cond list \<Rightarrow> nat list" where
  "cond_params [] = []"
| "cond_params (Eq c (Col d) # cs) = cond_params cs"
| "cond_params (Eq c (Param n) # cs) = n # cond_params cs"

fun num_input :: "stmt \<Rightarrow> nat" where
  "num_input (INSERT t cs ps) = fold max ps 0"
| "num_input (UPDATE t sets cs) = fold max (map snd sets @ cond_params cs) 0"
| "num_input (DELETE t cs) = fold max (cond_params cs) 0"

fun table_of :: "stmt \<Rightarrow> string" where
  "table_of (INSERT t cs ps) = t"
| "table_of (UPDATE t sets cs) = t"
| "table_of (DELETE t cs) = t"

text \<open>
  The effect of a statement on its table. An INSERT appends one row: the schema
  defaults, overwritten in the listed columns only. An UPDATE rewrites the listed
  columns of every row its WHERE clause selects; a DELETE removes those rows.
\<close>

fun run :: "stmt \<Rightarrow> sqlval list \<Rightarrow> sql_table \<Rightarrow> sql_table" where
  "run (INSERT t cs ps) args tb =
     tb\<lparr>stored_rows := stored_rows tb @ [assign args (zip cs ps) (schema_defaults tb)]\<rparr>"
| "run (UPDATE t sets cs) args tb =
     tb\<lparr>stored_rows :=
          map (\<lambda>r. if matches args cs r then assign args sets r else r) (stored_rows tb)\<rparr>"
| "run (DELETE t cs) args tb =
     tb\<lparr>stored_rows := filter (\<lambda>r. \<not> matches args cs r) (stored_rows tb)\<rparr>"

text \<open>\<^verbatim>\<open>db.ExecContext\<close>: the error of the driver, or the store after the statement.\<close>

definition ExecContext :: "sqlx_DB \<Rightarrow> stmt \<Rightarrow> sqlval list \<Rightarrow> string + sqlx_DB" where
  "ExecContext db s args =
     (case fault db of
        Some e \<Rightarrow> Inl e
      | None \<Rightarrow>
          if length args < num_input s then Inl ''not enough args to execute query''
          else (case map_of (tables db) (table_of s) of
                  None \<Rightarrow> Inl (''no such table: '' @ table_of s)
                | Some tb \<Rightarrow>
                    Inr (db\<lparr>tables := AList.update (table_of s) (run s args tb) (tables db)\<rparr>)))"

text \<open>
  A SELECT reads the product of the tables of its FROM list. A table with an alias
  contributes its columns under \<^verbatim>\<open>alias.column\<close>; the result set names each selected
  column without the alias.
\<close>

definition qualify :: "string \<Rightarrow> row \<Rightarrow> row" where
  "qualify a r = (if a = [] then r else map (\<lambda>(c, v). (a @ ''.'' @ c, v)) r)"

fun from_rows :: "(string \<times> sql_table) list \<Rightarrow> (string \<times> string) list \<Rightarrow> string + row list" where
  "from_rows ts [] = Inr [[]]"
| "from_rows ts ((t, a) # fs) =
     (case map_of ts t of
        None \<Rightarrow> Inl (''no such table: '' @ t)
      | Some tb \<Rightarrow>
          (case from_rows ts fs of
             Inl e \<Rightarrow> Inl e
           | Inr rest \<Rightarrow>
               Inr (concat (map (\<lambda>r. map (\<lambda>r'. qualify a r @ r') rest) (stored_rows tb)))))"

definition base_name :: "string \<Rightarrow> string" where
  "base_name c = rev (takeWhile (\<lambda>x. x \<noteq> CHR ''.'') (rev c))"

definition project :: "string list \<Rightarrow> row \<Rightarrow> row" where
  "project cs r = map (\<lambda>c. (base_name c, col r c)) cs"

fun query_rows :: "sqlx_DB \<Rightarrow> query \<Rightarrow> sqlval list \<Rightarrow> string + row list" where
  "query_rows db (SELECT cs fs ws) args =
     (case fault db of
        Some e \<Rightarrow> Inl e
      | None \<Rightarrow>
          if length args < fold max (cond_params ws) 0
          then Inl ''not enough args to execute query''
          else (case from_rows (tables db) fs of
                  Inl e \<Rightarrow> Inl e
                | Inr js \<Rightarrow> Inr (map (project cs) (filter (matches args ws) js))))"

text \<open>
  \<^verbatim>\<open>db.SelectContext\<close> scans every row of the result set into a struct and fails as a
  whole when one row does not scan. \<open>scan\<close> is the scan of one row into the
  destination type.
\<close>

fun scan_all :: "(row \<Rightarrow> string + 'a) \<Rightarrow> row list \<Rightarrow> string + 'a list" where
  "scan_all scan [] = Inr []"
| "scan_all scan (r # rs) =
     (case scan r of
        Inl e \<Rightarrow> Inl e
      | Inr x \<Rightarrow> (case scan_all scan rs of Inl e \<Rightarrow> Inl e | Inr xs \<Rightarrow> Inr (x # xs)))"

definition SelectContext ::
  "(row \<Rightarrow> string + 'a) \<Rightarrow> sqlx_DB \<Rightarrow> query \<Rightarrow> sqlval list \<Rightarrow> string + 'a list" where
  "SelectContext scan db q args =
     (case query_rows db q args of Inl e \<Rightarrow> Inl e | Inr rs \<Rightarrow> scan_all scan rs)"

text \<open>
  The scan of one column into a string field or an integer field of the destination,
  followed by the scan of the remaining columns: a text value fills a string field and
  an integer value an integer field; NULL, or a value of another storage class, is a
  scan error.
\<close>

fun scan_text :: "row \<Rightarrow> string \<Rightarrow> (string \<Rightarrow> string + 'a) \<Rightarrow> string + 'a" where
  "scan_text r c k =
     (case col r c of SText s \<Rightarrow> k s | v \<Rightarrow> Inl (''sql: Scan error on column '' @ c))"

fun scan_int :: "row \<Rightarrow> string \<Rightarrow> (int \<Rightarrow> string + 'a) \<Rightarrow> string + 'a" where
  "scan_int r c k =
     (case col r c of SInt i \<Rightarrow> k i | v \<Rightarrow> Inl (''sql: Scan error on column '' @ c))"


section \<open>Errors\<close>

text \<open>
  A Go \<^verbatim>\<open>error\<close> is modelled by its message; \<open>None\<close> is \<^verbatim>\<open>nil\<close>.
  \<^verbatim>\<open>errors.Wrap(err, msg)\<close> puts the message in front of the cause.
\<close>

definition Wrap :: "string \<Rightarrow> string \<Rightarrow> string" where
  "Wrap err msg = msg @ '': '' @ err"

text \<open>
  Modelled from the spec: \<^verbatim>\<open>model.ApiError\<close> and its constructors
  \<^verbatim>\<open>model.BadRequest\<close>, \<^verbatim>\<open>model.BadRequestStr\<close> and \<^verbatim>\<open>model.InternalErrorStr\<close> are
  declared outside the given files. The spec has two coarse categories,
  bad-request errors and internal errors; each carries its message.
\<close>

datatype ApiError = BadRequest string | InternalError string

section \<open>The ingestion-rule repository\<close>

text \<open>
  The structs \<^verbatim>\<open>PostableIngestionRule\<close> and \<^verbatim>\<open>IngestionRule\<close> are declared outside
  the given files; the records hold the fields the repository reads and writes. The type
  of the structured configuration is left open (\<open>'c\<close>); \<open>None\<close> is the zero value a
  struct has before its raw configuration is parsed.
\<close>

record 'c PostableIngestionRule =
  pr_Name :: string
  pr_Source :: string
  pr_RuleType :: string
  pr_RuleSubType :: string
  pr_Priority :: int
  pr_Config :: "'c option"

record 'c IngestionRule =
  Id :: string
  Name :: string
  Source :: string
  RuleType :: string
  RuleSubType :: string
  Priority :: int
  Config :: "'c option"
  RawConfig :: string
  DeployStatus :: string
  DeploySequence :: int

text \<open>
  Modelled from the spec: the constant \<^verbatim>\<open>PendingDeploy\<close> (of the string type
  \<^verbatim>\<open>DeployStatus\<close>) is declared outside the given files; the spec names the status
  "pending".
\<close>

definition PendingDeploy :: string where
  "PendingDeploy = ''pending''"

subsection \<open>InsertRule\<close>

definition rule_insertQuery :: stmt where
  "rule_insertQuery =
     INSERT ''ingestion_rules''
       [''id'', ''name'', ''source'', ''rule_type'', ''rule_subtype'', ''priority'', ''config_json'']
       [1, 2, 3, 4, 5, 6, 7]"

text \<open>
  \<open>IsValid\<close> is the validation method of the postable rule and \<open>Marshal\<close> is
  \<^verbatim>\<open>json.Marshal\<close> at the configuration type (both outside the given files);
  \<open>uuid\<close> is the string \<^verbatim>\<open>uuid.New().String()\<close> produces. The result is the returned
  row, the returned error, the postable rule as the call leaves it (the default priority
  is written through the pointer) and the store.
\<close>

definition InsertRule ::
  "('c PostableIngestionRule \<Rightarrow> string option) \<Rightarrow> ('c option \<Rightarrow> string + string) \<Rightarrow> string \<Rightarrow>
   sqlx_DB \<Rightarrow> 'c PostableIngestionRule \<Rightarrow>
   'c IngestionRule option \<times> string option \<times> 'c PostableIngestionRule \<times> sqlx_DB" where
  "InsertRule IsValid Marshal uuid db postable0 =
     (case IsValid postable0 of
        Some err \<Rightarrow>
          (None, Some (Wrap err ''failed to validate postable ingestion rule''), postable0, db)
      | None \<Rightarrow>
          (let postable = (if pr_Priority postable0 = 0
                           then postable0\<lparr>pr_Priority := 1\<rparr> else postable0)
           in case Marshal (pr_Config postable) of
                Inl err \<Rightarrow>
                  (None, Some (Wrap err ''failed to unmarshal postable ingestion config''),
                   postable, db)
              | Inr rawConfig \<Rightarrow>
                  (let insertRow =
                         \<lparr>Id = uuid,
                          Name = pr_Name postable,
                          Source = pr_Source postable,
                          RuleType = pr_RuleType postable,
                          RuleSubType = pr_RuleSubType postable,
                          Priority = pr_Priority postable,
                          Config = pr_Config postable,
                          RawConfig = rawConfig,
                          DeployStatus = PendingDeploy,
                          DeploySequence = - 1\<rparr>
                   in case ExecContext db rule_insertQuery
                             [SText (Id insertRow),
                              SText (Name insertRow),
                              SText (Source insertRow),
                              SText (RuleType insertRow),
                              SText (RuleSubType insertRow),
                              SInt (Priority insertRow),
                              SText (RawConfig insertRow)] of
                        Inl err \<Rightarrow>
                          (Some insertRow, Some (Wrap err ''failed to insert ingestion rule''),
                           postable, db)
                      | Inr db' \<Rightarrow> (Some insertRow, None, postable, db'))))"

subsection \<open>EditRule\<close>

definition editQuery :: stmt where
  "editQuery =
     UPDATE ''ingestion_rules''
       [(''name'', 1), (''rule_subtype'', 2), (''priority'', 3), (''config_json'', 4),
        (''deployment_status'', 5), (''deployment_sequence'', 6)]
       [Eq ''id'' (Param 7)]"

text \<open>
  The result is the returned error, \<^verbatim>\<open>editParams\<close> as the call leaves it (the default
  priority, and after a successful update the raw configuration, are written through the
  pointer) and the store.
\<close>

definition EditRule ::
  "('c option \<Rightarrow> string + string) \<Rightarrow> sqlx_DB \<Rightarrow> 'c IngestionRule \<Rightarrow>
   string option \<times> 'c IngestionRule \<times> sqlx_DB" where
  "EditRule Marshal db editParams0 =
     (let editParams = (if Priority editParams0 = 0
                        then editParams0\<lparr>Priority := 1\<rparr> else editParams0)
      in case Marshal (Config editParams) of
           Inl err \<Rightarrow>
             (Some (Wrap err ''failed to unmarshal edited ingestion rule config''), editParams, db)
         | Inr rawConfig \<Rightarrow>
             (case ExecContext db editQuery
                     [SText (Name editParams),
                      SText (RuleSubType editParams),
                      SInt (Priority editParams),
                      SText rawConfig,
                      SText PendingDeploy,
                      SInt (- 2),
                      SText (Id editParams)] of
                Inl err \<Rightarrow>
                  (Some (Wrap err ''failed to updated edit ingestion rule''), editParams, db)
              | Inr db' \<Rightarrow> (None, editParams\<lparr>RawConfig := rawConfig\<rparr>, db')))"

subsection \<open>Reading rules\<close>

text \<open>
  The scan of one result row into an \<^verbatim>\<open>IngestionRule\<close>, column by column in the
  order of the SELECT list. The structured configuration is no column and stays at its
  zero value.
\<close>

definition scan_rule :: "row \<Rightarrow> string + 'c IngestionRule" where
  "scan_rule r =
     scan_text r ''id'' (\<lambda>i.
     scan_text r ''source'' (\<lambda>s.
     scan_int r ''priority'' (\<lambda>p.
     scan_text r ''rule_type'' (\<lambda>t.
     scan_text r ''rule_subtype'' (\<lambda>u.
     scan_text r ''name'' (\<lambda>n.
     scan_text r ''config_json'' (\<lambda>c.
     scan_text r ''deployment_status'' (\<lambda>d.
     scan_int r ''deployment_sequence'' (\<lambda>q.
       Inr \<lparr>Id = i, Name = n, Source = s, RuleType = t, RuleSubType = u, Priority = p,
            Config = None, RawConfig = c, DeployStatus = d, DeploySequence = q\<rparr>)))))))))"

text \<open>
  Modelled from the spec: the method \<^verbatim>\<open>parseConfig\<close> of \<^verbatim>\<open>IngestionRule\<close> is declared
  outside the given files. It parses the raw serialized form into the structured
  configuration and reports a failure to parse as an error; \<open>Unmarshal\<close> is
  \<^verbatim>\<open>json.Unmarshal\<close> at the configuration type. The result is the error and the struct
  the method was called on.
\<close>

definition parseConfig ::
  "(string \<Rightarrow> string + 'c) \<Rightarrow> 'c IngestionRule \<Rightarrow> string option \<times> 'c IngestionRule" where
  "parseConfig Unmarshal d =
     (case Unmarshal (RawConfig d) of
        Inl err \<Rightarrow> (Some err, d)
      | Inr c \<Rightarrow> (None, d\<lparr>Config := Some c\<rparr>))"

definition dropRulesQuery :: query where
  "dropRulesQuery =
     SELECT [''id'', ''source'', ''priority'', ''rule_type'', ''rule_subtype'', ''name'',
             ''config_json'', ''deployment_status'', ''deployment_sequence'']
       [(''ingestion_rules'', [])]
       [Eq ''rule_type'' (Param 1)]"

text \<open>
  The loop \<^verbatim>\<open>for _, d := range dropRules\<close>: \<open>d\<close> is a copy of the element, so the
  parsed configuration is dropped with it and only the error is kept.
\<close>

fun collect_rule_errors ::
  "(string \<Rightarrow> string + 'c) \<Rightarrow> 'c IngestionRule list \<Rightarrow> string list \<Rightarrow> string list" where
  "collect_rule_errors Unmarshal [] errors = errors"
| "collect_rule_errors Unmarshal (d # ds) errors =
     (case fst (parseConfig Unmarshal d) of
        Some err \<Rightarrow> collect_rule_errors Unmarshal ds (errors @ [err])
      | None \<Rightarrow> collect_rule_errors Unmarshal ds errors)"

text \<open>
  \<open>IngestionRuleTypeDrop\<close> is a constant declared outside the given files and is
  taken as a parameter. A \<^verbatim>\<open>nil\<close> slice is the empty list.
\<close>

definition GetDropRules ::
  "(string \<Rightarrow> string + 'c) \<Rightarrow> string \<Rightarrow> sqlx_DB \<Rightarrow> 'c IngestionRule list \<times> string list" where
  "GetDropRules Unmarshal IngestionRuleTypeDrop db =
     (case SelectContext scan_rule db dropRulesQuery [SText IngestionRuleTypeDrop] of
        Inl err \<Rightarrow> ([], [''failed to get drop rules from db: '' @ err])
      | Inr dropRules \<Rightarrow> (dropRules, collect_rule_errors Unmarshal dropRules []))"

definition ruleQuery :: query where
  "ruleQuery =
     SELECT [''id'', ''source'', ''priority'', ''rule_type'', ''rule_subtype'', ''name'',
             ''config_json'', ''deployment_status'', ''deployment_sequence'']
       [(''ingestion_rules'', [])]
       [Eq ''id'' (Param 1)]"

definition GetRule ::
  "(string \<Rightarrow> string + 'c) \<Rightarrow> sqlx_DB \<Rightarrow> string \<Rightarrow> 'c IngestionRule option \<times> ApiError option" where
  "GetRule Unmarshal db ident =
     (case SelectContext scan_rule db ruleQuery [SText ident] of
        Inl err \<Rightarrow> (None, Some (BadRequest ''failed to get ingestion rule from db''))
      | Inr rules \<Rightarrow>
          if length rules = 0 then (None, None)
          else if length rules = 1 then
            (case parseConfig Unmarshal (rules ! 0) of
               (Some err, r) \<Rightarrow> (Some r, Some (InternalError ''found an invalid rule config ''))
             | (None, r) \<Rightarrow> (Some r, None))
          else (None, Some (InternalError ''mutliple rules with same id'')))"

subsection \<open>DeleteRule and UpdateStatusBySeq\<close>

definition rule_deleteQuery :: stmt where
  "rule_deleteQuery = DELETE ''ingestion_rules'' [Eq ''id'' (Param 1)]"

definition DeleteRule :: "sqlx_DB \<Rightarrow> string \<Rightarrow> ApiError option \<times> sqlx_DB" where
  "DeleteRule db ident =
     (case ExecContext db rule_deleteQuery [SText ident] of
        Inl err \<Rightarrow> (Some (BadRequest err), db)
      | Inr db' \<Rightarrow> (None, db'))"

text \<open>
  The WHERE clause of the source's statement reads \<^verbatim>\<open>deployment_sequence=$3\<close>, and
  \<^verbatim>\<open>$3\<close> is also the value of \<^verbatim>\<open>error_message\<close>; \<open>seq\<close> is the fourth argument of
  the call. \<open>now\<close> is the value of \<^verbatim>\<open>time.Now()\<close>.
\<close>

definition updateQuery :: stmt where
  "updateQuery =
     UPDATE ''ingestion_rules''
       [(''deployment_status'', 1), (''updated_at'', 2), (''error_message'', 3)]
       [Eq ''deployment_sequence'' (Param 3)]"

definition UpdateStatusBySeq ::
  "nat \<Rightarrow> sqlx_DB \<Rightarrow> int \<Rightarrow> string \<Rightarrow> string \<Rightarrow> ApiError option \<times> sqlx_DB" where
  "UpdateStatusBySeq now db seq status errorMessage =
     (case ExecContext db updateQuery
             [SText status, STime now, SText errorMessage, SInt seq] of
        Inl err \<Rightarrow> (Some (BadRequest ''failed to update ingestion rules by seq in db''), db)
      | Inr db' \<Rightarrow> (None, db'))"

section \<open>The pipeline repository\<close>

text \<open>
  The structs \<^verbatim>\<open>PostablePipeline\<close> and \<^verbatim>\<open>model.Pipeline\<close> are declared outside the
  given files; the records hold the fields \<^verbatim>\<open>pipelines/db.go\<close> reads and writes, and
  the two deployment fields its SELECT statements scan into.
\<close>

record 'c PostablePipeline =
  pp_OrderId :: int
  pp_Enabled :: bool
  pp_Name :: string
  pp_Alias :: string
  pp_Filter :: string
  pp_Config :: "'c option"

record 'c Pipeline =
  pl_Id :: string
  pl_OrderId :: int
  pl_Enabled :: bool
  pl_Name :: string
  pl_Alias :: string
  pl_Filter :: string
  pl_Config :: "'c option"
  pl_RawConfig :: string
  pl_DeployStatus :: string
  pl_DeploySequence :: int

definition logPipelines :: string where
  "logPipelines = ''log_pipelines''"

subsection \<open>insertPipeline\<close>

definition pipeline_insertQuery :: stmt where
  "pipeline_insertQuery =
     INSERT ''pipelines''
       [''id'', ''order_id'', ''enabled'', ''name'', ''alias'', ''filter'', ''config_json'']
       [1, 2, 3, 4, 5, 6, 7]"

text \<open>
  The fields of \<^verbatim>\<open>insertRow\<close> the struct literal does not set keep their zero values.
\<close>

definition insertPipeline ::
  "('c PostablePipeline \<Rightarrow> string option) \<Rightarrow> ('c option \<Rightarrow> string + string) \<Rightarrow> string \<Rightarrow>
   sqlx_DB \<Rightarrow> 'c PostablePipeline \<Rightarrow> 'c Pipeline option \<times> string option \<times> sqlx_DB" where
  "insertPipeline IsValid Marshal uuid db postable =
     (case IsValid postable of
        Some err \<Rightarrow>
          (None, Some (Wrap err ''failed to validate postable ingestion pipeline''), db)
      | None \<Rightarrow>
          (case Marshal (pp_Config postable) of
             Inl err \<Rightarrow>
               (None, Some (Wrap err ''failed to unmarshal postable ingestion config''), db)
           | Inr rawConfig \<Rightarrow>
               (let insertRow =
                      \<lparr>pl_Id = uuid,
                       pl_OrderId = pp_OrderId postable,
                       pl_Enabled = pp_Enabled postable,
                       pl_Name = pp_Name postable,
                       pl_Alias = pp_Alias postable,
                       pl_Filter = pp_Filter postable,
                       pl_Config = pp_Config postable,
                       pl_RawConfig = rawConfig,
                       pl_DeployStatus = [],
                       pl_DeploySequence = 0\<rparr>
                in case ExecContext db pipeline_insertQuery
                          [SText (pl_Id insertRow),
                           SInt (pl_OrderId insertRow),
                           SBool (pl_Enabled insertRow),
                           SText (pl_Name insertRow),
                           SText (pl_Alias insertRow),
                           SText (pl_Filter insertRow),
                           SText (pl_RawConfig insertRow)] of
                     Inl err \<Rightarrow>
                       (Some insertRow, Some (Wrap err ''failed to insert pipeline''), db)
                   | Inr db' \<Rightarrow> (Some insertRow, None, db'))))"

subsection \<open>Reading pipelines\<close>

definition scan_pipeline :: "row \<Rightarrow> string + 'c Pipeline" where
  "scan_pipeline r =
     scan_text r ''id'' (\<lambda>i.
     scan_text r ''name'' (\<lambda>n.
     scan_text r ''config_json'' (\<lambda>c.
     scan_text r ''deployment_status'' (\<lambda>d.
     scan_int r ''deployment_sequence'' (\<lambda>q.
       Inr \<lparr>pl_Id = i, pl_OrderId = 0, pl_Enabled = False, pl_Name = n, pl_Alias = [],
            pl_Filter = [], pl_Config = None, pl_RawConfig = c, pl_DeployStatus = d,
            pl_DeploySequence = q\<rparr>)))))"

text \<open>
  Modelled from the spec: the method \<^verbatim>\<open>ParseRawConfig\<close> of \<^verbatim>\<open>model.Pipeline\<close> is
  declared outside the given files. It parses the raw serialized form into the
  structured configuration and reports a failure to parse as an error.
\<close>

definition ParseRawConfig ::
  "(string \<Rightarrow> string + 'c) \<Rightarrow> 'c Pipeline \<Rightarrow> string option \<times> 'c Pipeline" where
  "ParseRawConfig Unmarshal d =
     (case Unmarshal (pl_RawConfig d) of
        Inl err \<Rightarrow> (Some err, d)
      | Inr c \<Rightarrow> (None, d\<lparr>pl_Config := Some c\<rparr>))"

definition versionQuery :: query where
  "versionQuery =
     SELECT [''r.id'', ''r.name'', ''r.config_json'', ''r.deployment_status'',
             ''r.deployment_sequence'']
       [(''pipelines'', ''r''), (''agent_config_elements'', ''e''),
        (''agent_config_versions'', ''v'')]
       [Eq ''r.id'' (Col ''e.element_id''),
        Eq ''v.id'' (Col ''e.version_id''),
        Eq ''e.element_type'' (Param 1),
        Eq ''v.version'' (Param 2)]"

fun collect_pipeline_errors ::
  "(string \<Rightarrow> string + 'c) \<Rightarrow> 'c Pipeline list \<Rightarrow> string list \<Rightarrow> string list" where
  "collect_pipeline_errors Unmarshal [] errors = errors"
| "collect_pipeline_errors Unmarshal (d # ds) errors =
     (case fst (ParseRawConfig Unmarshal d) of
        Some err \<Rightarrow> collect_pipeline_errors Unmarshal ds (errors @ [err])
      | None \<Rightarrow> collect_pipeline_errors Unmarshal ds errors)"

definition getPipelinesByVersion ::
  "(string \<Rightarrow> string + 'c) \<Rightarrow> sqlx_DB \<Rightarrow> int \<Rightarrow> 'c Pipeline list \<times> string list" where
  "getPipelinesByVersion Unmarshal db version =
     (case SelectContext scan_pipeline db versionQuery [SText logPipelines, SInt version] of
        Inl err \<Rightarrow> ([], [''failed to get drop pipelines from db: '' @ err])
      | Inr pipelines \<Rightarrow>
          if length pipelines = 0 then (pipelines, [])
          else (pipelines, collect_pipeline_errors Unmarshal pipelines []))"

definition pipelineQuery :: query where
  "pipelineQuery =
     SELECT [''id'', ''name'', ''config_json'', ''deployment_status'', ''deployment_sequence'']
       [(''pipelines'', [])]
       [Eq ''id'' (Param 1)]"

definition GetPipeline ::
  "(string \<Rightarrow> string + 'c) \<Rightarrow> sqlx_DB \<Rightarrow> string \<Rightarrow> 'c Pipeline option \<times> ApiError option" where
  "GetPipeline Unmarshal db ident =
     (case SelectContext scan_pipeline db pipelineQuery [SText ident] of
        Inl err \<Rightarrow> (None, Some (BadRequest ''failed to get ingestion pipeline from db''))
      | Inr pipelines \<Rightarrow>
          if length pipelines = 0 then (None, None)
          else if length pipelines = 1 then
            (case ParseRawConfig Unmarshal (pipelines ! 0) of
               (Some err, p) \<Rightarrow> (Some p, Some (InternalError ''found an invalid pipeline config ''))
             | (None, p) \<Rightarrow> (Some p, None))
          else (None, Some (InternalError ''mutliple pipelines with same id'')))"

subsection \<open>DeletePipeline\<close>

definition pipeline_deleteQuery :: stmt where
  "pipeline_deleteQuery = DELETE ''pipelines'' [Eq ''id'' (Param 1)]"

definition DeletePipeline :: "sqlx_DB \<Rightarrow> string \<Rightarrow> ApiError option \<times> sqlx_DB" where
  "DeletePipeline db ident =
     (case ExecContext db pipeline_deleteQuery [SText ident] of
        Inl err \<Rightarrow> (Some (BadRequest err), db)
      | Inr db' \<Rightarrow> (None, db'))"

section \<open>A concrete store\<close>

text \<open>
  A small store on which the operations are evaluated below. The configuration type is
  \<open>string\<close>; a raw configuration parses when it is \<^verbatim>\<open>{}\<close>. The rules \<open>a\<close> and \<open>b\<close>
  are drop rules under deployment with the sequence numbers 7 and 8, and \<open>b\<close> holds a
  raw configuration that does not parse; two rows share the id \<open>dup\<close>. The pipelines
  \<open>p1\<close> and \<open>p2\<close> belong to version 1 of the agent configuration.
\<close>

definition ex_Marshal :: "string option \<Rightarrow> string + string" where
  "ex_Marshal c = (case c of None \<Rightarrow> Inr ''null'' | Some s \<Rightarrow> Inr s)"

definition ex_Unmarshal :: "string \<Rightarrow> string + string" where
  "ex_Unmarshal s = (if s = ''{}'' then Inr s else Inl ''invalid character'')"

definition ex_rule_IsValid :: "string PostableIngestionRule \<Rightarrow> string option" where
  "ex_rule_IsValid p = (if pr_Name p = [] then Some ''name is required'' else None)"

definition ex_pipeline_IsValid :: "string PostablePipeline \<Rightarrow> string option" where
  "ex_pipeline_IsValid p = (if pp_Name p = [] then Some ''name is required'' else None)"

definition ex_rule_defaults :: row where
  "ex_rule_defaults =
     [(''id'', SNull), (''name'', SNull), (''source'', SNull), (''rule_type'', SNull),
      (''rule_subtype'', SNull), (''priority'', SInt 1), (''config_json'', SNull),
      (''deployment_status'', SText ''schema default''), (''deployment_sequence'', SInt 0),
      (''error_message'', SText []), (''updated_at'', SNull)]"

definition ex_rule_row :: "string \<Rightarrow> string \<Rightarrow> string \<Rightarrow> string \<Rightarrow> int \<Rightarrow> row" where
  "ex_rule_row i t c st sq =
     [(''id'', SText i), (''name'', SText ''n''), (''source'', SText ''logs''),
      (''rule_type'', SText t), (''rule_subtype'', SText ''always_on''),
      (''priority'', SInt 3), (''config_json'', SText c), (''deployment_status'', SText st),
      (''deployment_sequence'', SInt sq), (''error_message'', SText []),
      (''updated_at'', SNull)]"

definition ex_rules :: sql_table where
  "ex_rules =
     \<lparr>schema_defaults = ex_rule_defaults,
      stored_rows =
        [ex_rule_row ''a'' ''drop'' ''{}'' ''Deploying'' 7,
         ex_rule_row ''b'' ''drop'' ''{bad'' ''Deploying'' 8,
         ex_rule_row ''dup'' ''sample'' ''{}'' ''pending'' (- 1),
         ex_rule_row ''dup'' ''sample'' ''{}'' ''pending'' (- 1)]\<rparr>"

definition ex_pipeline_defaults :: row where
  "ex_pipeline_defaults =
     [(''id'', SNull), (''order_id'', SNull), (''enabled'', SNull), (''name'', SNull),
      (''alias'', SNull), (''filter'', SNull), (''config_json'', SNull),
      (''deployment_status'', SText ''schema default''), (''deployment_sequence'', SInt 0)]"

definition ex_pipeline_row :: "string \<Rightarrow> string \<Rightarrow> row" where
  "ex_pipeline_row i c =
     [(''id'', SText i), (''order_id'', SInt 1), (''enabled'', SBool True),
      (''name'', SText ''n''), (''alias'', SText ''al''), (''filter'', SText ''f''),
      (''config_json'', SText c), (''deployment_status'', SText ''deployed''),
      (''deployment_sequence'', SInt 1)]"

definition ex_pipelines :: sql_table where
  "ex_pipelines =
     \<lparr>schema_defaults = ex_pipeline_defaults,
      stored_rows =
        [ex_pipeline_row ''p1'' ''{}'', ex_pipeline_row ''p2'' ''{bad'',
         ex_pipeline_row ''dup'' ''{}'', ex_pipeline_row ''dup'' ''{}'']\<rparr>"

definition ex_elements :: sql_table where
  "ex_elements =
     \<lparr>schema_defaults = [(''element_id'', SNull), (''version_id'', SNull), (''element_type'', SNull)],
      stored_rows =
        [[(''element_id'', SText ''p1''), (''version_id'', SText ''v1''),
          (''element_type'', SText ''log_pipelines'')],
         [(''element_id'', SText ''p2''), (''version_id'', SText ''v1''),
          (''element_type'', SText ''log_pipelines'')]]\<rparr>"

definition ex_versions :: sql_table where
  "ex_versions =
     \<lparr>schema_defaults = [(''id'', SNull), (''version'', SNull)],
      stored_rows = [[(''id'', SText ''v1''), (''version'', SInt 1)]]\<rparr>"

definition ex_db :: sqlx_DB where
  "ex_db =
     \<lparr>tables = [(''ingestion_rules'', ex_rules), (''pipelines'', ex_pipelines),
                (''agent_config_elements'', ex_elements),
                (''agent_config_versions'', ex_versions)],
      fault = None\<rparr>"

definition ex_postable_rule :: "string PostableIngestionRule" where
  "ex_postable_rule =
     \<lparr>pr_Name = ''drop debug'', pr_Source = ''logs'', pr_RuleType = ''drop'',
      pr_RuleSubType = ''always_on'', pr_Priority = 0, pr_Config = Some ''{}''\<rparr>"

definition ex_postable_pipeline :: "string PostablePipeline" where
  "ex_postable_pipeline =
     \<lparr>pp_OrderId = 2, pp_Enabled = True, pp_Name = ''parse'', pp_Alias = ''parse'',
      pp_Filter = ''f'', pp_Config = Some ''{}''\<rparr>"

definition ex_edit :: "string IngestionRule" where
  "ex_edit =
     \<lparr>Id = ''a'', Name = ''renamed'', Source = ''logs'', RuleType = ''drop'',
      RuleSubType = ''always_on'', Priority = 0, Config = Some ''{}'', RawConfig = [],
      DeployStatus = ''Deploying'', DeploySequence = 7\<rparr>"

section \<open>Facts about the store\<close>

text \<open>
  What the interpreter does on the statements the repositories issue: a statement
  that succeeds replaces its table by the result of \<open>run\<close>, and a SELECT on one table
  with a single condition \<^verbatim>\<open>column = $1\<close> returns the rows that satisfy it.
\<close>

lemma col_update: "col (AList.update c v r) c' = (if c' = c then v else col r c')"
  by (simp add: col_def update_conv')

lemma col_assign_other:
  "c \<notin> fst ` set sets \<Longrightarrow> col (assign args sets r) c = col r c"
  by (induction sets arbitrary: r) (auto simp: col_update)

lemma ExecContext_Inr:
  assumes "ExecContext db s args = Inr db'"
  shows "\<exists>tb. fault db = None \<and> map_of (tables db) (table_of s) = Some tb \<and>
              db' = db\<lparr>tables := AList.update (table_of s) (run s args tb) (tables db)\<rparr>"
  using assms by (auto simp: ExecContext_def split: option.splits if_splits)

lemma ExecContext_table:
  assumes "ExecContext db s args = Inr db'"
  shows "\<exists>tb. map_of (tables db) (table_of s) = Some tb \<and>
              map_of (tables db') (table_of s) = Some (run s args tb)"
  using ExecContext_Inr [OF assms] by (auto simp: update_conv')

lemma from_rows_single:
  assumes "map_of ts t = Some tb"
  shows "from_rows ts [(t, [])] = Inr (stored_rows tb)"
proof -
  have "concat (map (\<lambda>r. [r]) xs) = xs" for xs :: "row list"
    by (induction xs) simp_all
  with assms show ?thesis by (simp add: qualify_def)
qed

lemma matches_single:
  "matches [v] [Eq c (Param (Suc 0))] = (\<lambda>r. sql_eq (col r c) v)"
  by (rule ext) (simp add: matches_def)

lemma query_rows_single:
  assumes "fault db = None" and "map_of (tables db) t = Some tb"
  shows "query_rows db (SELECT cs [(t, [])] [Eq c (Param (Suc 0))]) [v] =
           Inr (map (project cs) (filter (\<lambda>r. sql_eq (col r c) v) (stored_rows tb)))"
  using assms by (simp add: from_rows_single matches_single del: from_rows.simps)

lemma query_rows_single_Inr:
  assumes "query_rows db (SELECT cs [(t, [])] [Eq c (Param (Suc 0))]) [v] = Inr rs"
  shows "\<exists>tb. fault db = None \<and> map_of (tables db) t = Some tb \<and>
     rs = map (project cs) (filter (\<lambda>r. sql_eq (col r c) v) (stored_rows tb))"
proof -
  from assms have f: "fault db = None"
    by (simp split: option.splits)
  from assms f obtain tb where tb: "map_of (tables db) t = Some tb"
    by (auto split: option.splits if_splits)
  from assms show ?thesis
    unfolding query_rows_single [OF f tb] using f tb by auto
qed

lemma scan_all_length:
  "scan_all scan rs = Inr xs \<Longrightarrow> length xs = length rs"
  by (induction rs arbitrary: xs) (auto split: sum.splits)

lemma SelectContext_single:
  assumes "fault db = None" and "map_of (tables db) t = Some tb"
  shows "SelectContext scan db (SELECT cs [(t, [])] [Eq c (Param (Suc 0))]) [v] =
           scan_all scan (map (project cs) (filter (\<lambda>r. sql_eq (col r c) v) (stored_rows tb)))"
  unfolding SelectContext_def query_rows_single [OF assms] by simp

lemma SelectContext_single_length:
  assumes "SelectContext scan db (SELECT cs [(t, [])] [Eq c (Param (Suc 0))]) [v] = Inr xs"
    and "map_of (tables db) t = Some tb"
  shows "length xs = length (filter (\<lambda>r. sql_eq (col r c) v) (stored_rows tb))"
proof -
  from assms(1) obtain rs where
    q: "query_rows db (SELECT cs [(t, [])] [Eq c (Param (Suc 0))]) [v] = Inr rs"
    and s: "scan_all scan rs = Inr xs"
    by (auto simp: SelectContext_def split: sum.splits)
  from query_rows_single_Inr [OF q] assms(2)
  have "rs = map (project cs) (filter (\<lambda>r. sql_eq (col r c) v) (stored_rows tb))"
    by auto
  with scan_all_length [OF s] show ?thesis by simp
qed

section \<open>Facts about the operations\<close>

text \<open>
  A successful write, read backwards: the validation passed, the configuration was
  serialized, and the table holds the row the statement wrote.
\<close>

lemma InsertRule_success:
  assumes "InsertRule IsValid Marshal uuid db postable = (res, None, postable', db')"
  shows "\<exists>rawConfig tb p.
           p = (if pr_Priority postable = 0 then 1 else pr_Priority postable) \<and>
           IsValid postable = None \<and>
           Marshal (pr_Config postable) = Inr rawConfig \<and>
           postable' = postable\<lparr>pr_Priority := p\<rparr> \<and>
           res = Some \<lparr>Id = uuid, Name = pr_Name postable, Source = pr_Source postable,
                       RuleType = pr_RuleType postable, RuleSubType = pr_RuleSubType postable,
                       Priority = p, Config = pr_Config postable, RawConfig = rawConfig,
                       DeployStatus = PendingDeploy, DeploySequence = - 1\<rparr> \<and>
           map_of (tables db) ''ingestion_rules'' = Some tb \<and>
           map_of (tables db') ''ingestion_rules'' =
             Some (tb\<lparr>stored_rows := stored_rows tb @
               [assign [SText uuid, SText (pr_Name postable), SText (pr_Source postable),
                        SText (pr_RuleType postable), SText (pr_RuleSubType postable),
                        SInt p, SText rawConfig]
                  [(''id'', 1), (''name'', 2), (''source'', 3), (''rule_type'', 4),
                   (''rule_subtype'', 5), (''priority'', 6), (''config_json'', 7)]
                  (schema_defaults tb)]\<rparr>)"
proof -
  from assms have v: "IsValid postable = None"
    by (cases "IsValid postable") (auto simp: InsertRule_def)
  let ?p = "if pr_Priority postable = 0 then postable\<lparr>pr_Priority := 1\<rparr> else postable"
  from assms v obtain rawConfig where m: "Marshal (pr_Config postable) = Inr rawConfig"
    by (cases "Marshal (pr_Config postable)") (auto simp: InsertRule_def Let_def split: if_splits)
  let ?args = "[SText uuid, SText (pr_Name ?p), SText (pr_Source ?p), SText (pr_RuleType ?p),
                SText (pr_RuleSubType ?p), SInt (pr_Priority ?p), SText rawConfig]"
  from assms v m have ex: "ExecContext db rule_insertQuery ?args = Inr db'"
    and p': "postable' = ?p"
    and res: "res = Some \<lparr>Id = uuid, Name = pr_Name ?p, Source = pr_Source ?p,
                       RuleType = pr_RuleType ?p, RuleSubType = pr_RuleSubType ?p,
                       Priority = pr_Priority ?p, Config = pr_Config ?p, RawConfig = rawConfig,
                       DeployStatus = PendingDeploy, DeploySequence = - 1\<rparr>"
    by (auto simp: InsertRule_def Let_def split: if_splits sum.splits)
  from ExecContext_table [OF ex] obtain tb where
    tb: "map_of (tables db) ''ingestion_rules'' = Some tb"
    and tb': "map_of (tables db') ''ingestion_rules'' = Some (run rule_insertQuery ?args tb)"
    by (auto simp: rule_insertQuery_def)
  from v m p' res tb tb' show ?thesis
    by (auto simp: rule_insertQuery_def)
qed

lemma insertPipeline_success:
  assumes "insertPipeline IsValid Marshal uuid db postable = (res, None, db')"
  shows "\<exists>rawConfig tb.
           IsValid postable = None \<and>
           Marshal (pp_Config postable) = Inr rawConfig \<and>
           res = Some \<lparr>pl_Id = uuid, pl_OrderId = pp_OrderId postable,
                       pl_Enabled = pp_Enabled postable, pl_Name = pp_Name postable,
                       pl_Alias = pp_Alias postable, pl_Filter = pp_Filter postable,
                       pl_Config = pp_Config postable, pl_RawConfig = rawConfig,
                       pl_DeployStatus = [], pl_DeploySequence = 0\<rparr> \<and>
           map_of (tables db) ''pipelines'' = Some tb \<and>
           map_of (tables db') ''pipelines'' =
             Some (tb\<lparr>stored_rows := stored_rows tb @
               [assign [SText uuid, SInt (pp_OrderId postable), SBool (pp_Enabled postable),
                        SText (pp_Name postable), SText (pp_Alias postable),
                        SText (pp_Filter postable), SText rawConfig]
                  [(''id'', 1), (''order_id'', 2), (''enabled'', 3), (''name'', 4),
                   (''alias'', 5), (''filter'', 6), (''config_json'', 7)]
                  (schema_defaults tb)]\<rparr>)"
proof -
  from assms have v: "IsValid postable = None"
    by (cases "IsValid postable") (auto simp: insertPipeline_def)
  from assms v obtain rawConfig where m: "Marshal (pp_Config postable) = Inr rawConfig"
    by (cases "Marshal (pp_Config postable)") (auto simp: insertPipeline_def)
  let ?args = "[SText uuid, SInt (pp_OrderId postable), SBool (pp_Enabled postable),
                SText (pp_Name postable), SText (pp_Alias postable),
                SText (pp_Filter postable), SText rawConfig]"
  from assms v m have ex: "ExecContext db pipeline_insertQuery ?args = Inr db'"
    and res: "res = Some \<lparr>pl_Id = uuid, pl_OrderId = pp_OrderId postable,
                       pl_Enabled = pp_Enabled postable, pl_Name = pp_Name postable,
                       pl_Alias = pp_Alias postable, pl_Filter = pp_Filter postable,
                       pl_Config = pp_Config postable, pl_RawConfig = rawConfig,
                       pl_DeployStatus = [], pl_DeploySequence = 0\<rparr>"
    by (auto simp: insertPipeline_def Let_def split: sum.splits)
  from ExecContext_table [OF ex] obtain tb where
    tb: "map_of (tables db) ''pipelines'' = Some tb"
    and tb': "map_of (tables db') ''pipelines'' = Some (run pipeline_insertQuery ?args tb)"
    by (auto simp: pipeline_insertQuery_def)
  from v m res tb tb' show ?thesis
    by (auto simp: pipeline_insertQuery_def)
qed

lemma EditRule_success:
  assumes "EditRule Marshal db editParams = (None, editParams', db')"
  shows "\<exists>rawConfig tb p.
           p = (if Priority editParams = 0 then 1 else Priority editParams) \<and>
           Marshal (Config editParams) = Inr rawConfig \<and>
           editParams' = editParams\<lparr>Priority := p, RawConfig := rawConfig\<rparr> \<and>
           map_of (tables db) ''ingestion_rules'' = Some tb \<and>
           map_of (tables db') ''ingestion_rules'' =
             Some (tb\<lparr>stored_rows :=
               map (\<lambda>r. if sql_eq (col r ''id'') (SText (Id editParams))
                        then assign [SText (Name editParams), SText (RuleSubType editParams),
                                     SInt p, SText rawConfig, SText PendingDeploy, SInt (- 2),
                                     SText (Id editParams)]
                               [(''name'', 1), (''rule_subtype'', 2), (''priority'', 3),
                                (''config_json'', 4), (''deployment_status'', 5),
                                (''deployment_sequence'', 6)] r
                        else r) (stored_rows tb)\<rparr>)"
proof -
  let ?ep = "if Priority editParams = 0 then editParams\<lparr>Priority := 1\<rparr> else editParams"
  from assms obtain rawConfig where m: "Marshal (Config editParams) = Inr rawConfig"
    by (cases "Marshal (Config editParams)") (auto simp: EditRule_def Let_def split: if_splits)
  let ?args = "[SText (Name ?ep), SText (RuleSubType ?ep), SInt (Priority ?ep), SText rawConfig,
                SText PendingDeploy, SInt (- 2), SText (Id ?ep)]"
  from assms m have ex: "ExecContext db editQuery ?args = Inr db'"
    and ep': "editParams' = ?ep\<lparr>RawConfig := rawConfig\<rparr>"
    by (auto simp: EditRule_def Let_def split: if_splits sum.splits)
  from ExecContext_table [OF ex] obtain tb where
    tb: "map_of (tables db) ''ingestion_rules'' = Some tb"
    and tb': "map_of (tables db') ''ingestion_rules'' = Some (run editQuery ?args tb)"
    by (auto simp: editQuery_def)
  have "run editQuery ?args tb = tb\<lparr>stored_rows :=
               map (\<lambda>r. if sql_eq (col r ''id'') (SText (Id editParams))
                        then assign ?args
                               [(''name'', 1), (''rule_subtype'', 2), (''priority'', 3),
                                (''config_json'', 4), (''deployment_status'', 5),
                                (''deployment_sequence'', 6)] r
                        else r) (stored_rows tb)\<rparr>"
    by (simp add: editQuery_def matches_def)
  with m ep' tb tb' show ?thesis by auto
qed

text \<open>
  Each list operation collects one error for every struct whose raw configuration
  does not parse, in the order of the structs.
\<close>

lemma collect_rule_errors_eq:
  "collect_rule_errors Unmarshal ds errors =
     errors @ concat (map (\<lambda>d. case Unmarshal (RawConfig d) of Inl err \<Rightarrow> [err] | Inr c \<Rightarrow> []) ds)"
  by (induction ds arbitrary: errors) (auto simp: parseConfig_def split: sum.splits)

lemma collect_pipeline_errors_eq:
  "collect_pipeline_errors Unmarshal ds errors =
     errors @ concat (map (\<lambda>d. case Unmarshal (pl_RawConfig d) of Inl err \<Rightarrow> [err] | Inr c \<Rightarrow> []) ds)"
  by (induction ds arbitrary: errors) (auto simp: ParseRawConfig_def split: sum.splits)

lemma length_collected:
  "length (concat (map (\<lambda>d. case f d of Inl err \<Rightarrow> [err] | Inr c \<Rightarrow> []) ds)) =
     length (filter (\<lambda>d. isl (f d)) ds)"
  by (induction ds) (auto split: sum.splits)

text \<open>
  The queries of the read operations, evaluated on the concrete store.
\<close>

lemma ex_select_pipelines:
  "SelectContext scan_pipeline ex_db versionQuery [SText logPipelines, SInt 1] =
     Inr [(\<lparr>pl_Id = ''p1'', pl_OrderId = 0, pl_Enabled = False, pl_Name = ''n'', pl_Alias = [],
           pl_Filter = [], pl_Config = None, pl_RawConfig = ''{}'',
           pl_DeployStatus = ''deployed'', pl_DeploySequence = 1\<rparr> :: string Pipeline),
          \<lparr>pl_Id = ''p2'', pl_OrderId = 0, pl_Enabled = False, pl_Name = ''n'', pl_Alias = [],
           pl_Filter = [], pl_Config = None, pl_RawConfig = ''{bad'',
           pl_DeployStatus = ''deployed'', pl_DeploySequence = 1\<rparr>]"
  by (simp add: SelectContext_def versionQuery_def logPipelines_def ex_db_def ex_pipelines_def
        ex_pipeline_row_def ex_elements_def ex_versions_def qualify_def matches_def sql_eq_def
        col_def project_def base_name_def scan_pipeline_def)

lemma ex_select_rules:
  "SelectContext scan_rule ex_db dropRulesQuery [SText ''drop''] =
     Inr [(\<lparr>Id = ''a'', Name = ''n'', Source = ''logs'', RuleType = ''drop'',
           RuleSubType = ''always_on'', Priority = 3, Config = None, RawConfig = ''{}'',
           DeployStatus = ''Deploying'', DeploySequence = 7\<rparr> :: string IngestionRule),
          \<lparr>Id = ''b'', Name = ''n'', Source = ''logs'', RuleType = ''drop'',
           RuleSubType = ''always_on'', Priority = 3, Config = None, RawConfig = ''{bad'',
           DeployStatus = ''Deploying'', DeploySequence = 8\<rparr>]"
  by (simp add: SelectContext_def dropRulesQuery_def ex_db_def ex_rules_def
        ex_rule_row_def qualify_def matches_def sql_eq_def
        col_def project_def base_name_def scan_rule_def)

lemma ex_select_pipeline_p2:
  "SelectContext scan_pipeline ex_db pipelineQuery [SText ''p2''] =
     Inr [(\<lparr>pl_Id = ''p2'', pl_OrderId = 0, pl_Enabled = False, pl_Name = ''n'', pl_Alias = [],
           pl_Filter = [], pl_Config = None, pl_RawConfig = ''{bad'',
           pl_DeployStatus = ''deployed'', pl_DeploySequence = 1\<rparr> :: string Pipeline)]"
  by (simp add: SelectContext_def pipelineQuery_def ex_db_def ex_pipelines_def
        ex_pipeline_row_def qualify_def matches_def sql_eq_def
        col_def project_def base_name_def scan_pipeline_def)

lemma ex_select_rule_b:
  "SelectContext scan_rule ex_db ruleQuery [SText ''b''] =
     Inr [(\<lparr>Id = ''b'', Name = ''n'', Source = ''logs'', RuleType = ''drop'',
           RuleSubType = ''always_on'', Priority = 3, Config = None, RawConfig = ''{bad'',
           DeployStatus = ''Deploying'', DeploySequence = 8\<rparr> :: string IngestionRule)]"
  by (simp add: SelectContext_def ruleQuery_def ex_db_def ex_rules_def
        ex_rule_row_def qualify_def matches_def sql_eq_def
        col_def project_def base_name_def scan_rule_def)

section \<open>The claims\<close>

subsection \<open>UpdateStatusBySeq\<close>

text \<open>
  Claim C1: for every sequence number, status and error message, UpdateStatusBySeq
  updates exactly the rules whose deployment sequence equals the given number. The
  statement of the source compares the deployment sequence with its third argument,
  the error message, and never reads the fourth, the sequence number: the result of
  the call is the same for every sequence number. On the concrete store the first rule
  has the deployment sequence 7; the call with the sequence number 7, the status
  \<^verbatim>\<open>FAILED\<close> and the message \<^verbatim>\<open>boom\<close> returns no error and leaves the store as it
  was, so the rule keeps its status.
\<close>

theorem UpdateStatusBySeq_ignores_seq:
  "UpdateStatusBySeq now db seq status errorMessage =
     UpdateStatusBySeq now db seq' status errorMessage \<and>
   col (stored_rows ex_rules ! 0) ''deployment_sequence'' = SInt 7 \<and>
   col (stored_rows ex_rules ! 0) ''deployment_status'' = SText ''Deploying'' \<and>
   UpdateStatusBySeq 100 ex_db 7 ''FAILED'' ''boom'' = (None, ex_db)"
proof (intro conjI)
  show "UpdateStatusBySeq now db seq status errorMessage =
     UpdateStatusBySeq now db seq' status errorMessage"
    by (simp add: UpdateStatusBySeq_def ExecContext_def updateQuery_def matches_def
          split: option.splits cong: if_cong)
qed (simp_all add: UpdateStatusBySeq_def ExecContext_def updateQuery_def matches_def sql_eq_def
        col_def ex_db_def ex_rules_def ex_rule_row_def)

subsection \<open>EditRule resets the deployment state\<close>

text \<open>
  Claim C2: after a successful EditRule, every stored rule with the id of the edit
  payload has the deployment status pending and the deployment sequence -2, whatever
  its status and sequence were before; the row keeps its place and its id.
\<close>

theorem EditRule_resets_deployment:
  assumes "EditRule Marshal db editParams = (None, editParams', db')"
    and "map_of (tables db) ''ingestion_rules'' = Some tb"
    and "i < length (stored_rows tb)"
    and "col (stored_rows tb ! i) ''id'' = SText (Id editParams)"
  shows "\<exists>tb'. map_of (tables db') ''ingestion_rules'' = Some tb' \<and>
           length (stored_rows tb') = length (stored_rows tb) \<and>
           col (stored_rows tb' ! i) ''id'' = SText (Id editParams) \<and>
           col (stored_rows tb' ! i) ''deployment_status'' = SText PendingDeploy \<and>
           col (stored_rows tb' ! i) ''deployment_sequence'' = SInt (- 2)"
  using EditRule_success [OF assms(1)] assms(2-4)
  by (auto simp: col_update sql_eq_def)

theorem EditRule_resets_deployment_witness:
  "\<exists>p d tb'.
     EditRule ex_Marshal ex_db ex_edit = (None, p, d) \<and>
     map_of (tables ex_db) ''ingestion_rules'' = Some ex_rules \<and>
     col (stored_rows ex_rules ! 0) ''id'' = SText (Id ex_edit) \<and>
     col (stored_rows ex_rules ! 0) ''deployment_status'' = SText ''Deploying'' \<and>
     col (stored_rows ex_rules ! 0) ''deployment_sequence'' = SInt 7 \<and>
     map_of (tables d) ''ingestion_rules'' = Some tb' \<and>
     col (stored_rows tb' ! 0) ''deployment_status'' = SText ''pending'' \<and>
     col (stored_rows tb' ! 0) ''deployment_sequence'' = SInt (- 2)"
proof -
  obtain p d where ok: "EditRule ex_Marshal ex_db ex_edit = (None, p, d)"
    by (simp add: EditRule_def ExecContext_def editQuery_def ex_Marshal_def ex_db_def ex_edit_def)
  have tb: "map_of (tables ex_db) ''ingestion_rules'' = Some ex_rules"
    by (simp add: ex_db_def)
  have i: "0 < length (stored_rows ex_rules)"
    by (simp add: ex_rules_def)
  have r: "col (stored_rows ex_rules ! 0) ''id'' = SText (Id ex_edit)"
    "col (stored_rows ex_rules ! 0) ''deployment_status'' = SText ''Deploying''"
    "col (stored_rows ex_rules ! 0) ''deployment_sequence'' = SInt 7"
    by (simp_all add: ex_rules_def ex_rule_row_def ex_edit_def col_def)
  from EditRule_resets_deployment [OF ok tb i r(1)] ok tb r show ?thesis
    by (auto simp: PendingDeploy_def)
qed

subsection \<open>Validation before the insert\<close>

text \<open>
  Claim C3: when the validation of a postable pipeline or of a postable ingestion rule
  fails, the insert returns an error, no row, and the store it was given: no statement
  is executed. The rule is returned as it was passed, without the default priority.
\<close>

theorem insert_invalid_rejected:
  "(IsValidP postableP = Some errP \<longrightarrow>
      insertPipeline IsValidP MarshalP uuid db postableP =
        (None, Some (Wrap errP ''failed to validate postable ingestion pipeline''), db)) \<and>
   (IsValidR postableR = Some errR \<longrightarrow>
      InsertRule IsValidR MarshalR uuid db postableR =
        (None, Some (Wrap errR ''failed to validate postable ingestion rule''), postableR, db))"
  by (simp add: insertPipeline_def InsertRule_def)

theorem insert_invalid_rejected_witness:
  "ex_pipeline_IsValid (ex_postable_pipeline\<lparr>pp_Name := []\<rparr>) = Some ''name is required'' \<and>
   insertPipeline ex_pipeline_IsValid ex_Marshal ''u1'' ex_db (ex_postable_pipeline\<lparr>pp_Name := []\<rparr>) =
     (None, Some ''failed to validate postable ingestion pipeline: name is required'', ex_db) \<and>
   ex_rule_IsValid (ex_postable_rule\<lparr>pr_Name := []\<rparr>) = Some ''name is required'' \<and>
   InsertRule ex_rule_IsValid ex_Marshal ''u1'' ex_db (ex_postable_rule\<lparr>pr_Name := []\<rparr>) =
     (None, Some ''failed to validate postable ingestion rule: name is required'',
      ex_postable_rule\<lparr>pr_Name := []\<rparr>, ex_db)"
  using insert_invalid_rejected [of ex_pipeline_IsValid "ex_postable_pipeline\<lparr>pp_Name := []\<rparr>"
      "''name is required''" ex_Marshal "''u1''" ex_db ex_rule_IsValid
      "ex_postable_rule\<lparr>pr_Name := []\<rparr>" "''name is required''" ex_Marshal]
  by (simp add: ex_pipeline_IsValid_def ex_rule_IsValid_def Wrap_def)

subsection \<open>Fetching by id: no row\<close>

text \<open>
  Claim C4: when the statement runs and no stored row has the id, GetPipeline and
  GetRule return neither a struct nor an error.
\<close>

theorem get_by_id_not_found:
  "(fault db = None \<and> map_of (tables db) ''pipelines'' = Some tbP \<and>
    filter (\<lambda>r. sql_eq (col r ''id'') (SText ident)) (stored_rows tbP) = [] \<longrightarrow>
      GetPipeline UnmarshalP db ident = (None, None)) \<and>
   (fault db = None \<and> map_of (tables db) ''ingestion_rules'' = Some tbR \<and>
    filter (\<lambda>r. sql_eq (col r ''id'') (SText ident)) (stored_rows tbR) = [] \<longrightarrow>
      GetRule UnmarshalR db ident = (None, None))"
  by (simp add: GetPipeline_def GetRule_def pipelineQuery_def ruleQuery_def SelectContext_single)

theorem get_by_id_not_found_witness:
  "fault ex_db = None \<and>
   map_of (tables ex_db) ''pipelines'' = Some ex_pipelines \<and>
   filter (\<lambda>r. sql_eq (col r ''id'') (SText ''zz'')) (stored_rows ex_pipelines) = [] \<and>
   GetPipeline ex_Unmarshal ex_db ''zz'' = (None, None) \<and>
   map_of (tables ex_db) ''ingestion_rules'' = Some ex_rules \<and>
   filter (\<lambda>r. sql_eq (col r ''id'') (SText ''zz'')) (stored_rows ex_rules) = [] \<and>
   GetRule ex_Unmarshal ex_db ''zz'' = (None, None)"
proof -
  have f: "fault ex_db = None"
    and p: "map_of (tables ex_db) ''pipelines'' = Some ex_pipelines"
    and r: "map_of (tables ex_db) ''ingestion_rules'' = Some ex_rules"
    by (simp_all add: ex_db_def)
  have np: "filter (\<lambda>r. sql_eq (col r ''id'') (SText ''zz'')) (stored_rows ex_pipelines) = []"
    by (simp add: ex_pipelines_def ex_pipeline_row_def sql_eq_def col_def)
  have nr: "filter (\<lambda>r. sql_eq (col r ''id'') (SText ''zz'')) (stored_rows ex_rules) = []"
    by (simp add: ex_rules_def ex_rule_row_def sql_eq_def col_def)
  from get_by_id_not_found [of ex_db ex_pipelines "''zz''" ex_Unmarshal ex_rules ex_Unmarshal]
    f p r np nr
  show ?thesis by simp
qed

subsection \<open>Fetching by id: several rows\<close>

text \<open>
  Claim C5: when the query succeeds and more than one stored row has the id,
  GetPipeline and GetRule return no struct and an internal error. The cases of one row
  (the struct, with an internal error when its raw configuration does not parse) and
  of no row (neither struct nor error) have results of their own.
\<close>

theorem get_by_id_row_cases:
  "(SelectContext scan_pipeline db pipelineQuery [SText ident] = Inr pipelines \<and>
    map_of (tables db) ''pipelines'' = Some tbP \<longrightarrow>
      (1 < length (filter (\<lambda>r. sql_eq (col r ''id'') (SText ident)) (stored_rows tbP)) \<longrightarrow>
         GetPipeline UnmarshalP db ident =
           (None, Some (InternalError ''mutliple pipelines with same id''))) \<and>
      (length (filter (\<lambda>r. sql_eq (col r ''id'') (SText ident)) (stored_rows tbP)) = 1 \<longrightarrow>
         GetPipeline UnmarshalP db ident =
           (case UnmarshalP (pl_RawConfig (pipelines ! 0)) of
              Inl err \<Rightarrow> (Some (pipelines ! 0),
                           Some (InternalError ''found an invalid pipeline config ''))
            | Inr c \<Rightarrow> (Some ((pipelines ! 0)\<lparr>pl_Config := Some c\<rparr>), None))) \<and>
      (length (filter (\<lambda>r. sql_eq (col r ''id'') (SText ident)) (stored_rows tbP)) = 0 \<longrightarrow>
         GetPipeline UnmarshalP db ident = (None, None))) \<and>
   (SelectContext scan_rule db ruleQuery [SText ident] = Inr rules \<and>
    map_of (tables db) ''ingestion_rules'' = Some tbR \<longrightarrow>
      (1 < length (filter (\<lambda>r. sql_eq (col r ''id'') (SText ident)) (stored_rows tbR)) \<longrightarrow>
         GetRule UnmarshalR db ident =
           (None, Some (InternalError ''mutliple rules with same id''))) \<and>
      (length (filter (\<lambda>r. sql_eq (col r ''id'') (SText ident)) (stored_rows tbR)) = 1 \<longrightarrow>
         GetRule UnmarshalR db ident =
           (case UnmarshalR (RawConfig (rules ! 0)) of
              Inl err \<Rightarrow> (Some (rules ! 0),
                           Some (InternalError ''found an invalid rule config ''))
            | Inr c \<Rightarrow> (Some ((rules ! 0)\<lparr>Config := Some c\<rparr>), None))) \<and>
      (length (filter (\<lambda>r. sql_eq (col r ''id'') (SText ident)) (stored_rows tbR)) = 0 \<longrightarrow>
         GetRule UnmarshalR db ident = (None, None)))"
proof (intro conjI impI)
  assume a: "SelectContext scan_pipeline db pipelineQuery [SText ident] = Inr pipelines \<and>
    map_of (tables db) ''pipelines'' = Some tbP"
  then have n: "length pipelines =
      length (filter (\<lambda>r. sql_eq (col r ''id'') (SText ident)) (stored_rows tbP))"
    by (intro SelectContext_single_length [where scan = scan_pipeline])
       (auto simp: pipelineQuery_def)
  from a have s: "SelectContext scan_pipeline db pipelineQuery [SText ident] = Inr pipelines"
    by simp
  show "GetPipeline UnmarshalP db ident =
           (None, Some (InternalError ''mutliple pipelines with same id''))"
    if "1 < length (filter (\<lambda>r. sql_eq (col r ''id'') (SText ident)) (stored_rows tbP))"
    using that n s by (auto simp: GetPipeline_def)
  show "GetPipeline UnmarshalP db ident =
           (case UnmarshalP (pl_RawConfig (pipelines ! 0)) of
              Inl err \<Rightarrow> (Some (pipelines ! 0),
                           Some (InternalError ''found an invalid pipeline config ''))
            | Inr c \<Rightarrow> (Some ((pipelines ! 0)\<lparr>pl_Config := Some c\<rparr>), None))"
    if "length (filter (\<lambda>r. sql_eq (col r ''id'') (SText ident)) (stored_rows tbP)) = 1"
    using that n s by (auto simp: GetPipeline_def ParseRawConfig_def split: sum.splits)
  show "GetPipeline UnmarshalP db ident = (None, None)"
    if "length (filter (\<lambda>r. sql_eq (col r ''id'') (SText ident)) (stored_rows tbP)) = 0"
    using that n s by (auto simp: GetPipeline_def)
next
  assume a: "SelectContext scan_rule db ruleQuery [SText ident] = Inr rules \<and>
    map_of (tables db) ''ingestion_rules'' = Some tbR"
  then have n: "length rules =
      length (filter (\<lambda>r. sql_eq (col r ''id'') (SText ident)) (stored_rows tbR))"
    by (intro SelectContext_single_length [where scan = scan_rule])
       (auto simp: ruleQuery_def)
  from a have s: "SelectContext scan_rule db ruleQuery [SText ident] = Inr rules"
    by simp
  show "GetRule UnmarshalR db ident =
           (None, Some (InternalError ''mutliple rules with same id''))"
    if "1 < length (filter (\<lambda>r. sql_eq (col r ''id'') (SText ident)) (stored_rows tbR))"
    using that n s by (auto simp: GetRule_def)
  show "GetRule UnmarshalR db ident =
           (case UnmarshalR (RawConfig (rules ! 0)) of
              Inl err \<Rightarrow> (Some (rules ! 0),
                           Some (InternalError ''found an invalid rule config ''))
            | Inr c \<Rightarrow> (Some ((rules ! 0)\<lparr>Config := Some c\<rparr>), None))"
    if "length (filter (\<lambda>r. sql_eq (col r ''id'') (SText ident)) (stored_rows tbR)) = 1"
    using that n s by (auto simp: GetRule_def parseConfig_def split: sum.splits)
  show "GetRule UnmarshalR db ident = (None, None)"
    if "length (filter (\<lambda>r. sql_eq (col r ''id'') (SText ident)) (stored_rows tbR)) = 0"
    using that n s by (auto simp: GetRule_def)
qed

theorem get_by_id_row_cases_witness:
  "\<exists>(p :: string Pipeline) (r :: string IngestionRule).
     length (filter (\<lambda>r. sql_eq (col r ''id'') (SText ''dup'')) (stored_rows ex_pipelines)) = 2 \<and>
     GetPipeline ex_Unmarshal ex_db ''dup'' =
       (None, Some (InternalError ''mutliple pipelines with same id'')) \<and>
     length (filter (\<lambda>r. sql_eq (col r ''id'') (SText ''p2'')) (stored_rows ex_pipelines)) = 1 \<and>
     GetPipeline ex_Unmarshal ex_db ''p2'' =
       (Some p, Some (InternalError ''found an invalid pipeline config '')) \<and>
     pl_Id p = ''p2'' \<and>
     length (filter (\<lambda>r. sql_eq (col r ''id'') (SText ''zz'')) (stored_rows ex_pipelines)) = 0 \<and>
     GetPipeline ex_Unmarshal ex_db ''zz'' = (None, None) \<and>
     length (filter (\<lambda>r. sql_eq (col r ''id'') (SText ''dup'')) (stored_rows ex_rules)) = 2 \<and>
     GetRule ex_Unmarshal ex_db ''dup'' =
       (None, Some (InternalError ''mutliple rules with same id'')) \<and>
     length (filter (\<lambda>r. sql_eq (col r ''id'') (SText ''b'')) (stored_rows ex_rules)) = 1 \<and>
     GetRule ex_Unmarshal ex_db ''b'' =
       (Some r, Some (InternalError ''found an invalid rule config '')) \<and>
     Id r = ''b'' \<and>
     length (filter (\<lambda>r. sql_eq (col r ''id'') (SText ''zz'')) (stored_rows ex_rules)) = 0 \<and>
     GetRule ex_Unmarshal ex_db ''zz'' = (None, None)"
proof -
  have tp: "map_of (tables ex_db) ''pipelines'' = Some ex_pipelines"
    and tr: "map_of (tables ex_db) ''ingestion_rules'' = Some ex_rules"
    by (simp_all add: ex_db_def)
  have cp: "length (filter (\<lambda>r. sql_eq (col r ''id'') (SText ''dup'')) (stored_rows ex_pipelines)) = 2"
    "length (filter (\<lambda>r. sql_eq (col r ''id'') (SText ''p2'')) (stored_rows ex_pipelines)) = 1"
    "length (filter (\<lambda>r. sql_eq (col r ''id'') (SText ''zz'')) (stored_rows ex_pipelines)) = 0"
    by (simp_all add: ex_pipelines_def ex_pipeline_row_def sql_eq_def col_def)
  have cr: "length (filter (\<lambda>r. sql_eq (col r ''id'') (SText ''dup'')) (stored_rows ex_rules)) = 2"
    "length (filter (\<lambda>r. sql_eq (col r ''id'') (SText ''b'')) (stored_rows ex_rules)) = 1"
    "length (filter (\<lambda>r. sql_eq (col r ''id'') (SText ''zz'')) (stored_rows ex_rules)) = 0"
    by (simp_all add: ex_rules_def ex_rule_row_def sql_eq_def col_def)
  obtain pd :: "string Pipeline list" and rd :: "string IngestionRule list" where
    d: "SelectContext scan_pipeline ex_db pipelineQuery [SText ''dup''] = Inr pd"
       "SelectContext scan_rule ex_db ruleQuery [SText ''dup''] = Inr rd"
    by (simp add: SelectContext_def pipelineQuery_def ruleQuery_def ex_db_def ex_pipelines_def
        ex_pipeline_row_def ex_rules_def ex_rule_row_def qualify_def matches_def sql_eq_def
        col_def project_def base_name_def scan_pipeline_def scan_rule_def)
  obtain pz :: "string Pipeline list" and rz :: "string IngestionRule list" where
    z: "SelectContext scan_pipeline ex_db pipelineQuery [SText ''zz''] = Inr pz"
       "SelectContext scan_rule ex_db ruleQuery [SText ''zz''] = Inr rz"
    by (simp add: SelectContext_def pipelineQuery_def ruleQuery_def ex_db_def ex_pipelines_def
        ex_pipeline_row_def ex_rules_def ex_rule_row_def qualify_def matches_def sql_eq_def
        col_def project_def base_name_def scan_pipeline_def scan_rule_def)
  from d tp tr cp(1) cr(1)
    get_by_id_row_cases [of ex_db "''dup''" pd ex_pipelines ex_Unmarshal rd ex_rules ex_Unmarshal]
  have 1: "GetPipeline ex_Unmarshal ex_db ''dup'' =
       (None, Some (InternalError ''mutliple pipelines with same id''))"
    "GetRule ex_Unmarshal ex_db ''dup'' =
       (None, Some (InternalError ''mutliple rules with same id''))"
    by simp_all
  from ex_select_pipeline_p2 tp cp(2)
    get_by_id_row_cases [of ex_db "''p2''" _ ex_pipelines ex_Unmarshal rd ex_rules ex_Unmarshal]
  have 2: "GetPipeline ex_Unmarshal ex_db ''p2'' =
       (Some \<lparr>pl_Id = ''p2'', pl_OrderId = 0, pl_Enabled = False, pl_Name = ''n'', pl_Alias = [],
           pl_Filter = [], pl_Config = None, pl_RawConfig = ''{bad'',
           pl_DeployStatus = ''deployed'', pl_DeploySequence = 1\<rparr>,
        Some (InternalError ''found an invalid pipeline config ''))"
    by (simp add: ex_Unmarshal_def)
  from ex_select_rule_b tr cr(2)
    get_by_id_row_cases [of ex_db "''b''" pd ex_pipelines ex_Unmarshal _ ex_rules ex_Unmarshal]
  have 3: "GetRule ex_Unmarshal ex_db ''b'' =
       (Some \<lparr>Id = ''b'', Name = ''n'', Source = ''logs'', RuleType = ''drop'',
           RuleSubType = ''always_on'', Priority = 3, Config = None, RawConfig = ''{bad'',
           DeployStatus = ''Deploying'', DeploySequence = 8\<rparr>,
        Some (InternalError ''found an invalid rule config ''))"
    by (simp add: ex_Unmarshal_def)
  from z tp tr cp(3) cr(3)
    get_by_id_row_cases [of ex_db "''zz''" pz ex_pipelines ex_Unmarshal rz ex_rules ex_Unmarshal]
  have 4: "GetPipeline ex_Unmarshal ex_db ''zz'' = (None, None)"
    "GetRule ex_Unmarshal ex_db ''zz'' = (None, None)"
    by simp_all
  from cp cr 1 2 3 4 show ?thesis by simp
qed

subsection \<open>Listing rows with a malformed configuration\<close>

text \<open>
  Claim C6: when the query of a list operation (getPipelinesByVersion, GetDropRules)
  succeeds, the operation returns every row of its result, the malformed ones among
  them, together with one error for each row whose raw configuration does not parse.
  For GetDropRules the rows returned are as many as the stored rules of the drop
  type.
\<close>

theorem list_collects_parse_errors:
  "(SelectContext scan_pipeline db versionQuery [SText logPipelines, SInt version] =
      Inr pipelines \<longrightarrow>
      getPipelinesByVersion UnmarshalP db version =
        (pipelines,
         concat (map (\<lambda>d. case UnmarshalP (pl_RawConfig d) of Inl err \<Rightarrow> [err] | Inr c \<Rightarrow> [])
                   pipelines)) \<and>
      length (snd (getPipelinesByVersion UnmarshalP db version)) =
        length (filter (\<lambda>d. isl (UnmarshalP (pl_RawConfig d))) pipelines)) \<and>
   (SelectContext scan_rule db dropRulesQuery [SText IngestionRuleTypeDrop] = Inr dropRules \<longrightarrow>
      GetDropRules UnmarshalR IngestionRuleTypeDrop db =
        (dropRules,
         concat (map (\<lambda>d. case UnmarshalR (RawConfig d) of Inl err \<Rightarrow> [err] | Inr c \<Rightarrow> [])
                   dropRules)) \<and>
      length (snd (GetDropRules UnmarshalR IngestionRuleTypeDrop db)) =
        length (filter (\<lambda>d. isl (UnmarshalR (RawConfig d))) dropRules)) \<and>
   (SelectContext scan_rule db dropRulesQuery [SText IngestionRuleTypeDrop] = Inr dropRules \<and>
    map_of (tables db) ''ingestion_rules'' = Some tb \<longrightarrow>
      length (fst (GetDropRules UnmarshalR IngestionRuleTypeDrop db)) =
        length (filter (\<lambda>r. sql_eq (col r ''rule_type'') (SText IngestionRuleTypeDrop))
                  (stored_rows tb)))"
proof (intro conjI impI)
  assume s: "SelectContext scan_pipeline db versionQuery [SText logPipelines, SInt version] =
      Inr pipelines"
  then show g: "getPipelinesByVersion UnmarshalP db version =
        (pipelines,
         concat (map (\<lambda>d. case UnmarshalP (pl_RawConfig d) of Inl err \<Rightarrow> [err] | Inr c \<Rightarrow> [])
                   pipelines))"
    by (simp add: getPipelinesByVersion_def collect_pipeline_errors_eq)
  show "length (snd (getPipelinesByVersion UnmarshalP db version)) =
        length (filter (\<lambda>d. isl (UnmarshalP (pl_RawConfig d))) pipelines)"
    unfolding g by (simp add: length_collected)
next
  assume s: "SelectContext scan_rule db dropRulesQuery [SText IngestionRuleTypeDrop] = Inr dropRules"
  then show g: "GetDropRules UnmarshalR IngestionRuleTypeDrop db =
        (dropRules,
         concat (map (\<lambda>d. case UnmarshalR (RawConfig d) of Inl err \<Rightarrow> [err] | Inr c \<Rightarrow> [])
                   dropRules))"
    by (simp add: GetDropRules_def collect_rule_errors_eq)
  show "length (snd (GetDropRules UnmarshalR IngestionRuleTypeDrop db)) =
        length (filter (\<lambda>d. isl (UnmarshalR (RawConfig d))) dropRules)"
    unfolding g by (simp add: length_collected)
next
  assume a: "SelectContext scan_rule db dropRulesQuery [SText IngestionRuleTypeDrop] = Inr dropRules \<and>
    map_of (tables db) ''ingestion_rules'' = Some tb"
  then have "length dropRules =
        length (filter (\<lambda>r. sql_eq (col r ''rule_type'') (SText IngestionRuleTypeDrop))
                  (stored_rows tb))"
    by (intro SelectContext_single_length [where scan = scan_rule]) (auto simp: dropRulesQuery_def)
  with a show "length (fst (GetDropRules UnmarshalR IngestionRuleTypeDrop db)) =
        length (filter (\<lambda>r. sql_eq (col r ''rule_type'') (SText IngestionRuleTypeDrop))
                  (stored_rows tb))"
    by (simp add: GetDropRules_def)
qed

theorem list_collects_parse_errors_witness:
  "\<exists>(pipelines :: string Pipeline list) (dropRules :: string IngestionRule list).
     SelectContext scan_pipeline ex_db versionQuery [SText logPipelines, SInt 1] = Inr pipelines \<and>
     map pl_RawConfig pipelines = [''{}'', ''{bad''] \<and>
     getPipelinesByVersion ex_Unmarshal ex_db 1 = (pipelines, [''invalid character'']) \<and>
     SelectContext scan_rule ex_db dropRulesQuery [SText ''drop''] = Inr dropRules \<and>
     map RawConfig dropRules = [''{}'', ''{bad''] \<and>
     GetDropRules ex_Unmarshal ''drop'' ex_db = (dropRules, [''invalid character'']) \<and>
     map_of (tables ex_db) ''ingestion_rules'' = Some ex_rules \<and>
     length (filter (\<lambda>r. sql_eq (col r ''rule_type'') (SText ''drop'')) (stored_rows ex_rules)) = 2"
proof -
  let ?ps = "[\<lparr>pl_Id = ''p1'', pl_OrderId = 0, pl_Enabled = False, pl_Name = ''n'', pl_Alias = [],
           pl_Filter = [], pl_Config = None, pl_RawConfig = ''{}'',
           pl_DeployStatus = ''deployed'', pl_DeploySequence = 1\<rparr>,
          \<lparr>pl_Id = ''p2'', pl_OrderId = 0, pl_Enabled = False, pl_Name = ''n'', pl_Alias = [],
           pl_Filter = [], pl_Config = None, pl_RawConfig = ''{bad'',
           pl_DeployStatus = ''deployed'', pl_DeploySequence = 1\<rparr>] :: string Pipeline list"
  let ?rs = "[\<lparr>Id = ''a'', Name = ''n'', Source = ''logs'', RuleType = ''drop'',
           RuleSubType = ''always_on'', Priority = 3, Config = None, RawConfig = ''{}'',
           DeployStatus = ''Deploying'', DeploySequence = 7\<rparr>,
          \<lparr>Id = ''b'', Name = ''n'', Source = ''logs'', RuleType = ''drop'',
           RuleSubType = ''always_on'', Priority = 3, Config = None, RawConfig = ''{bad'',
           DeployStatus = ''Deploying'', DeploySequence = 8\<rparr>] :: string IngestionRule list"
  have r: "map_of (tables ex_db) ''ingestion_rules'' = Some ex_rules"
    by (simp add: ex_db_def)
  note t = list_collects_parse_errors [of ex_db 1 ?ps ex_Unmarshal "''drop''" ?rs ex_Unmarshal
      ex_rules]
  from ex_select_pipelines t
  have 1: "getPipelinesByVersion ex_Unmarshal ex_db 1 = (?ps, [''invalid character''])"
    by (simp add: ex_Unmarshal_def)
  from ex_select_rules t
  have 2: "GetDropRules ex_Unmarshal ''drop'' ex_db = (?rs, [''invalid character''])"
    by (simp add: ex_Unmarshal_def)
  from ex_select_rules r t
  have "length (fst (GetDropRules ex_Unmarshal ''drop'' ex_db)) =
        length (filter (\<lambda>r. sql_eq (col r ''rule_type'') (SText ''drop''))
             (stored_rows ex_rules))"
    by blast
  with 2
  have 3: "length (filter (\<lambda>r. sql_eq (col r ''rule_type'') (SText ''drop''))
             (stored_rows ex_rules)) = 2"
    by simp
  from ex_select_pipelines ex_select_rules 1 2 3 r show ?thesis
    by simp
qed

subsection \<open>The default priority\<close>

text \<open>
  Claim C7: InsertRule and EditRule write the priority 1 when the submitted priority
  is 0, and the submitted priority otherwise: it is the priority of the returned row
  (of the edit payload after the call) and the value of the column \<^verbatim>\<open>priority\<close> of the
  row inserted (of the rows edited).
\<close>

theorem default_priority:
  "(InsertRule IsValid Marshal uuid db postable = (res, None, postable', db1) \<longrightarrow>
      (\<exists>insertRow tb'.
         res = Some insertRow \<and>
         Priority insertRow = (if pr_Priority postable = 0 then 1 else pr_Priority postable) \<and>
         map_of (tables db1) ''ingestion_rules'' = Some tb' \<and>
         stored_rows tb' \<noteq> [] \<and>
         col (last (stored_rows tb')) ''id'' = SText uuid \<and>
         col (last (stored_rows tb')) ''priority'' = SInt (Priority insertRow))) \<and>
   (EditRule Marshal db editParams = (None, editParams', db2) \<and>
    map_of (tables db) ''ingestion_rules'' = Some tb \<and>
    i < length (stored_rows tb) \<and>
    col (stored_rows tb ! i) ''id'' = SText (Id editParams) \<longrightarrow>
      Priority editParams' = (if Priority editParams = 0 then 1 else Priority editParams) \<and>
      (\<exists>tb'. map_of (tables db2) ''ingestion_rules'' = Some tb' \<and>
             col (stored_rows tb' ! i) ''id'' = SText (Id editParams) \<and>
             col (stored_rows tb' ! i) ''priority'' = SInt (Priority editParams')))"
proof (intro conjI impI)
  assume "InsertRule IsValid Marshal uuid db postable = (res, None, postable', db1)"
  from InsertRule_success [OF this]
  show "\<exists>insertRow tb'.
         res = Some insertRow \<and>
         Priority insertRow = (if pr_Priority postable = 0 then 1 else pr_Priority postable) \<and>
         map_of (tables db1) ''ingestion_rules'' = Some tb' \<and>
         stored_rows tb' \<noteq> [] \<and>
         col (last (stored_rows tb')) ''id'' = SText uuid \<and>
         col (last (stored_rows tb')) ''priority'' = SInt (Priority insertRow)"
    by (auto simp: col_update)
next
  assume a: "EditRule Marshal db editParams = (None, editParams', db2) \<and>
    map_of (tables db) ''ingestion_rules'' = Some tb \<and>
    i < length (stored_rows tb) \<and>
    col (stored_rows tb ! i) ''id'' = SText (Id editParams)"
  then have ok: "EditRule Marshal db editParams = (None, editParams', db2)" by simp
  from EditRule_success [OF ok] a
  show "Priority editParams' = (if Priority editParams = 0 then 1 else Priority editParams)"
    by auto
  from EditRule_success [OF ok] a
  show "\<exists>tb'. map_of (tables db2) ''ingestion_rules'' = Some tb' \<and>
             col (stored_rows tb' ! i) ''id'' = SText (Id editParams) \<and>
             col (stored_rows tb' ! i) ''priority'' = SInt (Priority editParams')"
    by (auto simp: col_update sql_eq_def)
qed

theorem default_priority_witness:
  "\<exists>insertRow p d1 e d2 tb1 tb2.
     pr_Priority ex_postable_rule = 0 \<and>
     InsertRule ex_rule_IsValid ex_Marshal ''u1'' ex_db ex_postable_rule =
       (Some insertRow, None, p, d1) \<and>
     Priority insertRow = 1 \<and>
     map_of (tables d1) ''ingestion_rules'' = Some tb1 \<and>
     col (last (stored_rows tb1)) ''priority'' = SInt 1 \<and>
     EditRule ex_Marshal ex_db (ex_edit\<lparr>Priority := 5\<rparr>) = (None, e, d2) \<and>
     col (stored_rows ex_rules ! 0) ''priority'' = SInt 3 \<and>
     Priority e = 5 \<and>
     map_of (tables d2) ''ingestion_rules'' = Some tb2 \<and>
     col (stored_rows tb2 ! 0) ''priority'' = SInt 5"
proof -
  obtain insertRow p d1 where ins:
    "InsertRule ex_rule_IsValid ex_Marshal ''u1'' ex_db ex_postable_rule =
       (Some insertRow, None, p, d1)"
    by (simp add: InsertRule_def ExecContext_def rule_insertQuery_def ex_rule_IsValid_def
          ex_Marshal_def ex_db_def ex_postable_rule_def)
  obtain e d2 where ed: "EditRule ex_Marshal ex_db (ex_edit\<lparr>Priority := 5\<rparr>) = (None, e, d2)"
    by (simp add: EditRule_def ExecContext_def editQuery_def ex_Marshal_def ex_db_def ex_edit_def)
  have tb: "map_of (tables ex_db) ''ingestion_rules'' = Some ex_rules"
    by (simp add: ex_db_def)
  have i: "0 < length (stored_rows ex_rules)"
    by (simp add: ex_rules_def)
  have r: "col (stored_rows ex_rules ! 0) ''id'' = SText (Id (ex_edit\<lparr>Priority := 5\<rparr>))"
    "col (stored_rows ex_rules ! 0) ''priority'' = SInt 3"
    by (simp_all add: ex_rules_def ex_rule_row_def ex_edit_def col_def)
  have z: "pr_Priority ex_postable_rule = 0"
    by (simp add: ex_postable_rule_def)
  from default_priority [of ex_rule_IsValid ex_Marshal "''u1''" ex_db ex_postable_rule
      "Some insertRow" p d1 "ex_edit\<lparr>Priority := 5\<rparr>" e d2 ex_rules 0] ins ed tb i r z
  show ?thesis by auto
qed

subsection \<open>The raw configuration at write time\<close>

text \<open>
  Claim C8: at every successful write (insertPipeline, InsertRule, EditRule) the raw
  configuration that is returned and the value stored in the column \<^verbatim>\<open>config_json\<close>
  are the serialization of the structured configuration of the value being written.
\<close>

theorem raw_config_is_serialization:
  "(insertPipeline IsValidP MarshalP uuid db postableP = (resP, None, dbP) \<longrightarrow>
      (\<exists>insertRow tb'.
         resP = Some insertRow \<and>
         pl_Config insertRow = pp_Config postableP \<and>
         MarshalP (pl_Config insertRow) = Inr (pl_RawConfig insertRow) \<and>
         map_of (tables dbP) ''pipelines'' = Some tb' \<and>
         stored_rows tb' \<noteq> [] \<and>
         col (last (stored_rows tb')) ''id'' = SText uuid \<and>
         col (last (stored_rows tb')) ''config_json'' = SText (pl_RawConfig insertRow))) \<and>
   (InsertRule IsValidR MarshalR uuid db postableR = (resR, None, postableR', dbR) \<longrightarrow>
      (\<exists>insertRow tb'.
         resR = Some insertRow \<and>
         Config insertRow = pr_Config postableR \<and>
         MarshalR (Config insertRow) = Inr (RawConfig insertRow) \<and>
         map_of (tables dbR) ''ingestion_rules'' = Some tb' \<and>
         stored_rows tb' \<noteq> [] \<and>
         col (last (stored_rows tb')) ''id'' = SText uuid \<and>
         col (last (stored_rows tb')) ''config_json'' = SText (RawConfig insertRow))) \<and>
   (EditRule MarshalR db editParams = (None, editParams', dbE) \<and>
    map_of (tables db) ''ingestion_rules'' = Some tb \<and>
    i < length (stored_rows tb) \<and>
    col (stored_rows tb ! i) ''id'' = SText (Id editParams) \<longrightarrow>
      Config editParams' = Config editParams \<and>
      MarshalR (Config editParams') = Inr (RawConfig editParams') \<and>
      (\<exists>tb'. map_of (tables dbE) ''ingestion_rules'' = Some tb' \<and>
             col (stored_rows tb' ! i) ''id'' = SText (Id editParams) \<and>
             col (stored_rows tb' ! i) ''config_json'' = SText (RawConfig editParams')))"
proof (intro conjI impI)
  assume "insertPipeline IsValidP MarshalP uuid db postableP = (resP, None, dbP)"
  from insertPipeline_success [OF this]
  show "\<exists>insertRow tb'.
         resP = Some insertRow \<and>
         pl_Config insertRow = pp_Config postableP \<and>
         MarshalP (pl_Config insertRow) = Inr (pl_RawConfig insertRow) \<and>
         map_of (tables dbP) ''pipelines'' = Some tb' \<and>
         stored_rows tb' \<noteq> [] \<and>
         col (last (stored_rows tb')) ''id'' = SText uuid \<and>
         col (last (stored_rows tb')) ''config_json'' = SText (pl_RawConfig insertRow)"
    by (auto simp: col_update)
next
  assume "InsertRule IsValidR MarshalR uuid db postableR = (resR, None, postableR', dbR)"
  from InsertRule_success [OF this]
  show "\<exists>insertRow tb'.
         resR = Some insertRow \<and>
         Config insertRow = pr_Config postableR \<and>
         MarshalR (Config insertRow) = Inr (RawConfig insertRow) \<and>
         map_of (tables dbR) ''ingestion_rules'' = Some tb' \<and>
         stored_rows tb' \<noteq> [] \<and>
         col (last (stored_rows tb')) ''id'' = SText uuid \<and>
         col (last (stored_rows tb')) ''config_json'' = SText (RawConfig insertRow)"
    by (auto simp: col_update)
next
  assume a: "EditRule MarshalR db editParams = (None, editParams', dbE) \<and>
    map_of (tables db) ''ingestion_rules'' = Some tb \<and>
    i < length (stored_rows tb) \<and>
    col (stored_rows tb ! i) ''id'' = SText (Id editParams)"
  then have ok: "EditRule MarshalR db editParams = (None, editParams', dbE)" by simp
  from EditRule_success [OF ok]
  show "Config editParams' = Config editParams"
    and "MarshalR (Config editParams') = Inr (RawConfig editParams')"
    by auto
  from EditRule_success [OF ok] a
  show "\<exists>tb'. map_of (tables dbE) ''ingestion_rules'' = Some tb' \<and>
             col (stored_rows tb' ! i) ''id'' = SText (Id editParams) \<and>
             col (stored_rows tb' ! i) ''config_json'' = SText (RawConfig editParams')"
    by (auto simp: col_update sql_eq_def)
qed

theorem raw_config_is_serialization_witness:
  "\<exists>pl dP tbP rl p dR tbR e dE tbE.
     insertPipeline ex_pipeline_IsValid ex_Marshal ''u1'' ex_db ex_postable_pipeline =
       (Some pl, None, dP) \<and>
     ex_Marshal (pl_Config pl) = Inr (pl_RawConfig pl) \<and>
     map_of (tables dP) ''pipelines'' = Some tbP \<and>
     col (last (stored_rows tbP)) ''config_json'' = SText (pl_RawConfig pl) \<and>
     InsertRule ex_rule_IsValid ex_Marshal ''u1'' ex_db ex_postable_rule =
       (Some rl, None, p, dR) \<and>
     ex_Marshal (Config rl) = Inr (RawConfig rl) \<and>
     map_of (tables dR) ''ingestion_rules'' = Some tbR \<and>
     col (last (stored_rows tbR)) ''config_json'' = SText (RawConfig rl) \<and>
     EditRule ex_Marshal ex_db (ex_edit\<lparr>Config := Some ''[1]''\<rparr>) = (None, e, dE) \<and>
     RawConfig e = ''[1]'' \<and>
     ex_Marshal (Config e) = Inr (RawConfig e) \<and>
     map_of (tables dE) ''ingestion_rules'' = Some tbE \<and>
     col (stored_rows tbE ! 0) ''config_json'' = SText ''[1]''"
proof -
  obtain pl dP where insP:
    "insertPipeline ex_pipeline_IsValid ex_Marshal ''u1'' ex_db ex_postable_pipeline =
       (Some pl, None, dP)"
    by (simp add: insertPipeline_def ExecContext_def pipeline_insertQuery_def
          ex_pipeline_IsValid_def ex_Marshal_def ex_db_def ex_postable_pipeline_def)
  obtain rl p dR where insR:
    "InsertRule ex_rule_IsValid ex_Marshal ''u1'' ex_db ex_postable_rule =
       (Some rl, None, p, dR)"
    by (simp add: InsertRule_def ExecContext_def rule_insertQuery_def ex_rule_IsValid_def
          ex_Marshal_def ex_db_def ex_postable_rule_def)
  obtain e dE where ed:
    "EditRule ex_Marshal ex_db (ex_edit\<lparr>Config := Some ''[1]''\<rparr>) = (None, e, dE)"
    by (simp add: EditRule_def ExecContext_def editQuery_def ex_Marshal_def ex_db_def ex_edit_def)
  have re: "RawConfig e = ''[1]''"
    using ed
    by (auto simp: EditRule_def ExecContext_def editQuery_def ex_Marshal_def ex_db_def ex_edit_def)
  have tb: "map_of (tables ex_db) ''ingestion_rules'' = Some ex_rules"
    by (simp add: ex_db_def)
  have i: "0 < length (stored_rows ex_rules)"
    by (simp add: ex_rules_def)
  have r: "col (stored_rows ex_rules ! 0) ''id'' = SText (Id (ex_edit\<lparr>Config := Some ''[1]''\<rparr>))"
    by (simp add: ex_rules_def ex_rule_row_def ex_edit_def col_def)
  from raw_config_is_serialization [of ex_pipeline_IsValid ex_Marshal "''u1''" ex_db
      ex_postable_pipeline "Some pl" dP ex_rule_IsValid ex_Marshal ex_postable_rule "Some rl" p dR
      "ex_edit\<lparr>Config := Some ''[1]''\<rparr>" e dE ex_rules 0] insP insR ed tb i r re
  show ?thesis by auto
qed

subsection \<open>Deleting an id no row has\<close>

text \<open>
  Claim C9: DeletePipeline and DeleteRule return no error whenever the statement
  runs, also when no stored row has the id (the table is then left as it was). They
  return an error only when the statement itself fails, and the error is then a
  bad-request error that carries the error of the statement.
\<close>

theorem delete_missing_succeeds:
  "(fault db = None \<and> map_of (tables db) ''pipelines'' = Some tbP \<longrightarrow>
      fst (DeletePipeline db ident) = None) \<and>
   (fault db = None \<and> map_of (tables db) ''pipelines'' = Some tbP \<and>
    filter (\<lambda>r. sql_eq (col r ''id'') (SText ident)) (stored_rows tbP) = [] \<longrightarrow>
      map_of (tables (snd (DeletePipeline db ident))) ''pipelines'' = Some tbP) \<and>
   (fst (DeletePipeline db ident) \<noteq> None \<longrightarrow>
      (\<exists>err. ExecContext db pipeline_deleteQuery [SText ident] = Inl err \<and>
             DeletePipeline db ident = (Some (BadRequest err), db))) \<and>
   (fault db = None \<and> map_of (tables db) ''ingestion_rules'' = Some tbR \<longrightarrow>
      fst (DeleteRule db ident) = None) \<and>
   (fault db = None \<and> map_of (tables db) ''ingestion_rules'' = Some tbR \<and>
    filter (\<lambda>r. sql_eq (col r ''id'') (SText ident)) (stored_rows tbR) = [] \<longrightarrow>
      map_of (tables (snd (DeleteRule db ident))) ''ingestion_rules'' = Some tbR) \<and>
   (fst (DeleteRule db ident) \<noteq> None \<longrightarrow>
      (\<exists>err. ExecContext db rule_deleteQuery [SText ident] = Inl err \<and>
             DeleteRule db ident = (Some (BadRequest err), db)))"
proof -
  have keep: "filter (\<lambda>r. \<not> P r) xs = xs" if "filter P xs = []" for P and xs :: "row list"
    using that by (induction xs) (auto split: if_splits)
  have same: "tb\<lparr>stored_rows := stored_rows tb\<rparr> = tb" for tb :: sql_table
    by simp
  show ?thesis
    by (auto simp: DeletePipeline_def DeleteRule_def pipeline_deleteQuery_def rule_deleteQuery_def
          ExecContext_def matches_single keep update_conv' split: sum.splits option.splits)
qed

theorem delete_missing_succeeds_witness:
  "fault ex_db = None \<and>
   map_of (tables ex_db) ''pipelines'' = Some ex_pipelines \<and>
   filter (\<lambda>r. sql_eq (col r ''id'') (SText ''zz'')) (stored_rows ex_pipelines) = [] \<and>
   fst (DeletePipeline ex_db ''zz'') = None \<and>
   map_of (tables (snd (DeletePipeline ex_db ''zz''))) ''pipelines'' = Some ex_pipelines \<and>
   map_of (tables ex_db) ''ingestion_rules'' = Some ex_rules \<and>
   filter (\<lambda>r. sql_eq (col r ''id'') (SText ''zz'')) (stored_rows ex_rules) = [] \<and>
   fst (DeleteRule ex_db ''zz'') = None \<and>
   map_of (tables (snd (DeleteRule ex_db ''zz''))) ''ingestion_rules'' = Some ex_rules \<and>
   fst (DeletePipeline (ex_db\<lparr>fault := Some ''database is locked''\<rparr>) ''p1'') \<noteq> None \<and>
   DeletePipeline (ex_db\<lparr>fault := Some ''database is locked''\<rparr>) ''p1'' =
     (Some (BadRequest ''database is locked''), ex_db\<lparr>fault := Some ''database is locked''\<rparr>) \<and>
   fst (DeleteRule (ex_db\<lparr>fault := Some ''database is locked''\<rparr>) ''a'') \<noteq> None \<and>
   DeleteRule (ex_db\<lparr>fault := Some ''database is locked''\<rparr>) ''a'' =
     (Some (BadRequest ''database is locked''), ex_db\<lparr>fault := Some ''database is locked''\<rparr>)"
proof -
  let ?bad = "ex_db\<lparr>fault := Some ''database is locked''\<rparr>"
  have f: "fault ex_db = None"
    and p: "map_of (tables ex_db) ''pipelines'' = Some ex_pipelines"
    and r: "map_of (tables ex_db) ''ingestion_rules'' = Some ex_rules"
    by (simp_all add: ex_db_def)
  have np: "filter (\<lambda>r. sql_eq (col r ''id'') (SText ''zz'')) (stored_rows ex_pipelines) = []"
    by (simp add: ex_pipelines_def ex_pipeline_row_def sql_eq_def col_def)
  have nr: "filter (\<lambda>r. sql_eq (col r ''id'') (SText ''zz'')) (stored_rows ex_rules) = []"
    by (simp add: ex_rules_def ex_rule_row_def sql_eq_def col_def)
  have bp: "fst (DeletePipeline ?bad ''p1'') \<noteq> None"
    by (simp add: DeletePipeline_def ExecContext_def)
  have br: "fst (DeleteRule ?bad ''a'') \<noteq> None"
    by (simp add: DeleteRule_def ExecContext_def)
  have ep: "ExecContext ?bad pipeline_deleteQuery [SText ''p1''] = Inl ''database is locked''"
    and er: "ExecContext ?bad rule_deleteQuery [SText ''a''] = Inl ''database is locked''"
    by (simp_all add: ExecContext_def)
  from delete_missing_succeeds [of ex_db ex_pipelines "''zz''" ex_rules] f p r np nr
  have ok: "fst (DeletePipeline ex_db ''zz'') = None"
    "map_of (tables (snd (DeletePipeline ex_db ''zz''))) ''pipelines'' = Some ex_pipelines"
    "fst (DeleteRule ex_db ''zz'') = None"
    "map_of (tables (snd (DeleteRule ex_db ''zz''))) ''ingestion_rules'' = Some ex_rules"
    by simp_all
  from delete_missing_succeeds [of ?bad ex_pipelines "''p1''" ex_rules] bp ep
  have fp: "DeletePipeline ?bad ''p1'' = (Some (BadRequest ''database is locked''), ?bad)"
    by auto
  from delete_missing_succeeds [of ?bad ex_pipelines "''a''" ex_rules] br er
  have fr: "DeleteRule ?bad ''a'' = (Some (BadRequest ''database is locked''), ?bad)"
    by auto
  from f p r np nr ok bp br fp fr show ?thesis by simp
qed

subsection \<open>The columns InsertRule writes\<close>

text \<open>
  Claim C10: for a valid postable rule (whose configuration serializes) the row
  InsertRule returns has the deployment status PendingDeploy and the deployment
  sequence -1, but the INSERT statement writes the seven columns id, name, source,
  rule_type, rule_subtype, priority and config_json only: in every other column, among
  them \<^verbatim>\<open>deployment_status\<close> and \<^verbatim>\<open>deployment_sequence\<close>, the stored row holds the
  default of the schema.
\<close>

theorem InsertRule_deployment_columns:
  assumes "IsValid postable = None"
    and "Marshal (pr_Config postable) = Inr rawConfig"
  shows "(\<exists>insertRow.
            fst (InsertRule IsValid Marshal uuid db postable) = Some insertRow \<and>
            DeployStatus insertRow = PendingDeploy \<and>
            DeploySequence insertRow = - 1) \<and>
         (\<forall>res postable' db'.
            InsertRule IsValid Marshal uuid db postable = (res, None, postable', db') \<longrightarrow>
            (\<exists>tb r. map_of (tables db) ''ingestion_rules'' = Some tb \<and>
                    map_of (tables db') ''ingestion_rules'' =
                      Some (tb\<lparr>stored_rows := stored_rows tb @ [r]\<rparr>) \<and>
                    col r ''id'' = SText uuid \<and>
                    (\<forall>c. c \<notin> {''id'', ''name'', ''source'', ''rule_type'', ''rule_subtype'',
                              ''priority'', ''config_json''} \<longrightarrow>
                         col r c = col (schema_defaults tb) c) \<and>
                    col r ''deployment_status'' = col (schema_defaults tb) ''deployment_status'' \<and>
                    col r ''deployment_sequence'' =
                      col (schema_defaults tb) ''deployment_sequence''))"
proof (intro conjI allI impI)
  from assms show "\<exists>insertRow.
            fst (InsertRule IsValid Marshal uuid db postable) = Some insertRow \<and>
            DeployStatus insertRow = PendingDeploy \<and>
            DeploySequence insertRow = - 1"
    by (auto simp: InsertRule_def Let_def split: sum.splits)
next
  fix res postable' db'
  assume ok: "InsertRule IsValid Marshal uuid db postable = (res, None, postable', db')"
  let ?sets = "[(''id'', 1), (''name'', 2), (''source'', 3), (''rule_type'', 4),
                   (''rule_subtype'', 5), (''priority'', 6), (''config_json'', 7)]
               :: (string \<times> nat) list"
  from InsertRule_success [OF ok] obtain tb raw where
    tb: "map_of (tables db) ''ingestion_rules'' = Some tb"
    and tb': "map_of (tables db') ''ingestion_rules'' =
             Some (tb\<lparr>stored_rows := stored_rows tb @
               [assign [SText uuid, SText (pr_Name postable), SText (pr_Source postable),
                        SText (pr_RuleType postable), SText (pr_RuleSubType postable),
                        SInt (if pr_Priority postable = 0 then 1 else pr_Priority postable),
                        SText raw]
                  ?sets (schema_defaults tb)]\<rparr>)"
    by blast
  let ?r = "assign [SText uuid, SText (pr_Name postable), SText (pr_Source postable),
                        SText (pr_RuleType postable), SText (pr_RuleSubType postable),
                        SInt (if pr_Priority postable = 0 then 1 else pr_Priority postable),
                        SText raw] ?sets (schema_defaults tb)"
  have other: "col ?r c = col (schema_defaults tb) c"
    if "c \<notin> {''id'', ''name'', ''source'', ''rule_type'', ''rule_subtype'',
                              ''priority'', ''config_json''}" for c
    using that by (intro col_assign_other) simp
  have "col ?r ''id'' = SText uuid"
    by (simp add: col_update)
  moreover have "col ?r ''deployment_status'' = col (schema_defaults tb) ''deployment_status''"
    by (rule other) simp
  moreover have "col ?r ''deployment_sequence'' = col (schema_defaults tb) ''deployment_sequence''"
    by (rule other) simp
  ultimately show "\<exists>tb r. map_of (tables db) ''ingestion_rules'' = Some tb \<and>
                    map_of (tables db') ''ingestion_rules'' =
                      Some (tb\<lparr>stored_rows := stored_rows tb @ [r]\<rparr>) \<and>
                    col r ''id'' = SText uuid \<and>
                    (\<forall>c. c \<notin> {''id'', ''name'', ''source'', ''rule_type'', ''rule_subtype'',
                              ''priority'', ''config_json''} \<longrightarrow>
                         col r c = col (schema_defaults tb) c) \<and>
                    col r ''deployment_status'' = col (schema_defaults tb) ''deployment_status'' \<and>
                    col r ''deployment_sequence'' =
                      col (schema_defaults tb) ''deployment_sequence''"
    using tb tb' other by blast
qed

theorem InsertRule_deployment_columns_witness:
  "\<exists>insertRow p d r.
     ex_rule_IsValid ex_postable_rule = None \<and>
     ex_Marshal (pr_Config ex_postable_rule) = Inr ''{}'' \<and>
     InsertRule ex_rule_IsValid ex_Marshal ''u1'' ex_db ex_postable_rule =
       (Some insertRow, None, p, d) \<and>
     DeployStatus insertRow = ''pending'' \<and>
     DeploySequence insertRow = - 1 \<and>
     map_of (tables d) ''ingestion_rules'' =
       Some (ex_rules\<lparr>stored_rows := stored_rows ex_rules @ [r]\<rparr>) \<and>
     col r ''id'' = SText ''u1'' \<and>
     col r ''deployment_status'' = SText ''schema default'' \<and>
     col r ''deployment_sequence'' = SInt 0"
proof -
  have v: "ex_rule_IsValid ex_postable_rule = None"
    by (simp add: ex_rule_IsValid_def ex_postable_rule_def)
  have m: "ex_Marshal (pr_Config ex_postable_rule) = Inr ''{}''"
    by (simp add: ex_Marshal_def ex_postable_rule_def)
  obtain insertRow p d where ins:
    "InsertRule ex_rule_IsValid ex_Marshal ''u1'' ex_db ex_postable_rule =
       (Some insertRow, None, p, d)"
    by (simp add: InsertRule_def ExecContext_def rule_insertQuery_def ex_rule_IsValid_def
          ex_Marshal_def ex_db_def ex_postable_rule_def)
  have tb: "map_of (tables ex_db) ''ingestion_rules'' = Some ex_rules"
    by (simp add: ex_db_def)
  have d: "col (schema_defaults ex_rules) ''deployment_status'' = SText ''schema default''"
    "col (schema_defaults ex_rules) ''deployment_sequence'' = SInt 0"
    by (simp_all add: ex_rules_def ex_rule_defaults_def col_def)
  from InsertRule_deployment_columns [of ex_rule_IsValid ex_postable_rule ex_Marshal "''{}''"
      "''u1''" ex_db, OF v m] ins tb d v m
  show ?thesis by (auto simp: PendingDeploy_def)
qed

end
